theory Spec2Isabelle
  imports Main
begin

section \<open>Welcome Wizard views: data model\<close>

text \<open>
  The views of \<^verbatim>\<open>welcome_wizard/views.py\<close> are glue over Django and Nautobot. The
  database tables they read and write, the job queue, the git-sync queue and the flash
  messages are the fields of one explicit state, \<open>world\<close>; each view method takes the
  state and returns either the exception it raises or its result with the new state.
  A table is the list of its rows, in the order the manager returns them.
\<close>

type_synonym pk = string
type_synonym user = string

datatype error = DoesNotExist | MultipleObjectsReturned | MultiValueDictKeyError | AttributeError

text \<open>The two import models of the plugin, and the rows the views read from them.\<close>

datatype import_model = ManufacturerImport | DeviceTypeImport

record manufacturer_import =
  mi_pk :: pk
  mi_name :: string

record devicetype_import =
  dt_pk :: pk
  dt_name :: string
  dt_filename :: string

datatype import_obj = ManufacturerObj manufacturer_import | DeviceTypeObj devicetype_import

fun obj_pk :: "import_obj \<Rightarrow> pk" where
  "obj_pk (ManufacturerObj m) = mi_pk m"
| "obj_pk (DeviceTypeObj d) = dt_pk d"

fun obj_name :: "import_obj \<Rightarrow> string" where
  "obj_name (ManufacturerObj m) = mi_name m"
| "obj_name (DeviceTypeObj d) = dt_name d"

text \<open>Only a device type row has a \<open>filename\<close> attribute.\<close>

fun obj_filename :: "import_obj \<Rightarrow> error + string" where
  "obj_filename (ManufacturerObj m) = Inl AttributeError"
| "obj_filename (DeviceTypeObj d) = Inr (dt_filename d)"

text \<open>The Nautobot models whose tables the dashboard checks for data.\<close>

datatype nautobot_model =
  Location | Manufacturer | DeviceType | CircuitType | Provider | RIR | ClusterType

record git_repository =
  repo_name :: string
  slug :: string
  remote_url :: string
  provided_contents :: "string list"
  branch :: string

record job =
  job_name :: string

record merlin =
  merlin_name :: string
  completed :: bool
  ignored :: bool
  nautobot_model :: nautobot_model
  nautobot_add_link :: string
  merlin_link :: string
  nautobot_list_link :: string

text \<open>One call of \<open>JobResult.enqueue_job\<close>: the job, the user, the keyword arguments.\<close>

record enqueued_job =
  job_model :: job
  job_user :: user
  job_kwargs :: "(string \<times> string) list"

record world =
  plugins_config :: "string \<rightharpoonup> bool"
  user_perms :: "user \<Rightarrow> string set"
  inventory_exists :: "nautobot_model \<Rightarrow> bool"
  manufacturer_imports :: "manufacturer_import list"
  devicetype_imports :: "devicetype_import list"
  git_repositories :: "git_repository list"
  jobs :: "job list"
  merlins :: "merlin list"
  job_queue :: "enqueued_job list"
  sync_queue :: "(git_repository \<times> user) list"
  messages :: "string list"

text \<open>
  A request: the acting user and the two query dictionaries. A \<open>QueryDict\<close> maps a key
  to the list of values given for it.
\<close>

type_synonym querydict = "string \<rightharpoonup> string list"

record request =
  req_user :: user
  GET :: querydict
  POST :: querydict

datatype form_class = Form | ManufacturerBulkImportForm | DeviceTypeBulkImportForm

text \<open>The template context of the import page; the form is its class and the dictionary
  it was built from.\<close>

record import_context =
  ctx_form :: "form_class \<times> (string \<times> string list) list"
  ctx_obj :: import_obj
  ctx_return_url :: string
  ctx_bulk_import_url :: string
  ctx_breadcrumb_name :: string

datatype response =
  Redirect string
| RenderImport string import_context
| RenderList string
| HttpResponseForbidden

section \<open>Framework operations the views call\<close>

text \<open>
  \<open>Manager.get\<close>: the one row that satisfies the lookup; \<open>DoesNotExist\<close> when there is
  none, \<open>MultipleObjectsReturned\<close> when there are several.
\<close>

definition objects_get :: "('a \<Rightarrow> bool) \<Rightarrow> 'a list \<Rightarrow> error + 'a" where
  "objects_get P rows =
     (case filter P rows of
        [] \<Rightarrow> Inl DoesNotExist
      | [x] \<Rightarrow> Inr x
      | _ \<Rightarrow> Inl MultipleObjectsReturned)"

text \<open>\<open>self.model.objects\<close>: the table of the view's import model.\<close>

fun model_objects :: "import_model \<Rightarrow> world \<Rightarrow> import_obj list" where
  "model_objects ManufacturerImport w = map ManufacturerObj (manufacturer_imports w)"
| "model_objects DeviceTypeImport w = map DeviceTypeObj (devicetype_imports w)"

text \<open>
  \<open>QueryDict.__getitem__\<close>, \<open>QueryDict.get\<close> and \<open>QueryDict.getlist\<close> of Django: a
  key with several values reads as its last value. For a key whose list of values is
  empty \<open>__getitem__\<close> answers Python's empty list and \<open>get\<close> the default \<open>None\<close>.
  Strings are lists here, so the empty list and the empty string are the same value
  \<open>[]\<close>; both are falsy in Python, and \<open>get\<close> of the view only tests
  \<open>not request.GET.get("pk")\<close>, which the model reads as \<open>querydict_get \<dots> = None\<close>.
\<close>

definition querydict_getitem :: "querydict \<Rightarrow> string \<Rightarrow> error + string" where
  "querydict_getitem q k =
     (case q k of
        None \<Rightarrow> Inl MultiValueDictKeyError
      | Some vs \<Rightarrow> Inr (if vs = [] then [] else last vs))"

definition querydict_get :: "querydict \<Rightarrow> string \<Rightarrow> string option" where
  "querydict_get q k =
     (case querydict_getitem q k of
        Inl e \<Rightarrow> None
      | Inr v \<Rightarrow> (if v = [] then None else Some v))"

definition querydict_getlist :: "querydict \<Rightarrow> string \<Rightarrow> string list" where
  "querydict_getlist q k = (case q k of None \<Rightarrow> [] | Some vs \<Rightarrow> vs)"

text \<open>\<open>JobResult.enqueue_job\<close>, \<open>messages.success\<close> and
  \<open>enqueue_pull_git_repository_and_refresh_data\<close> hand over to the framework; the model
  records each call.\<close>

definition enqueue_job :: "job \<Rightarrow> user \<Rightarrow> (string \<times> string) list \<Rightarrow> world \<Rightarrow> world" where
  "enqueue_job j u kwargs w =
     w\<lparr>job_queue := job_queue w @ [\<lparr>job_model = j, job_user = u, job_kwargs = kwargs\<rparr>]\<rparr>"

definition messages_success :: "string \<Rightarrow> world \<Rightarrow> world" where
  "messages_success msg w = w\<lparr>messages := messages w @ [msg]\<rparr>"

definition enqueue_pull_git_repository_and_refresh_data ::
    "git_repository \<Rightarrow> user \<Rightarrow> world \<Rightarrow> world" where
  "enqueue_pull_git_repository_and_refresh_data repo u w =
     w\<lparr>sync_queue := sync_queue w @ [(repo, u)]\<rparr>"

definition git_repository_save :: "git_repository \<Rightarrow> world \<Rightarrow> world" where
  "git_repository_save repo w = w\<lparr>git_repositories := git_repositories w @ [repo]\<rparr>"

text \<open>Python's \<open>str\<close> of a non-negative integer, as the f-string of the message uses it.\<close>

fun str_nat :: "nat \<Rightarrow> string" where
  "str_nat n =
     (if n < 10 then [''0123456789'' ! n]
      else str_nat (n div 10) @ [''0123456789'' ! (n mod 10)])"

declare str_nat.simps [simp del]

section \<open>check_sync and the list views\<close>

text \<open>
  A wizard list view, as far as \<open>check_sync\<close> and \<open>get\<close> use it: the import model
  its class-level queryset ranges over, and its template.
\<close>

record list_view =
  lv_queryset :: import_model
  lv_template_name :: string

definition ManufacturerListView :: list_view where
  "ManufacturerListView =
     \<lparr>lv_queryset = ManufacturerImport, lv_template_name = ''welcome_wizard/manufacturer.html''\<rparr>"

definition DeviceTypeListView :: list_view where
  "DeviceTypeListView =
     \<lparr>lv_queryset = DeviceTypeImport, lv_template_name = ''welcome_wizard/devicetype.html''\<rparr>"

definition queryset_exists :: "list_view \<Rightarrow> world \<Rightarrow> bool" where
  "queryset_exists instance w = (model_objects (lv_queryset instance) w \<noteq> [])"

definition devicetype_library :: git_repository where
  "devicetype_library =
     \<lparr>repo_name = ''Devicetype-library'',
      slug = ''devicetype_library'',
      remote_url = ''https://github.com/netbox-community/devicetype-library.git'',
      provided_contents = [''welcome_wizard.import_wizard''],
      branch = ''master''\<rparr>"

text \<open>
  \<open>plugins_config\<close> is \<open>settings.PLUGINS_CONFIG["welcome_wizard"]\<close>, each value read
  by its truth value; \<open>.get\<close> of a missing key is \<open>None\<close>, which is falsy. The
  repository lookup raises \<open>MultipleObjectsReturned\<close> past the \<open>except\<close> clause,
  which catches \<open>DoesNotExist\<close> only.
\<close>

definition check_sync :: "list_view \<Rightarrow> request \<Rightarrow> world \<Rightarrow> error + world" where
  "check_sync instance req w =
     (if plugins_config w ''enable_devicetype-library'' = Some True
         \<and> \<not> queryset_exists instance w
      then
        (case objects_get (\<lambda>r. slug r = ''devicetype_library'') (git_repositories w) of
           Inr repo \<Rightarrow>
             Inr (enqueue_pull_git_repository_and_refresh_data repo (req_user req) w)
         | Inl DoesNotExist \<Rightarrow>
             Inr (enqueue_pull_git_repository_and_refresh_data devicetype_library (req_user req)
                    (git_repository_save devicetype_library w))
         | Inl e \<Rightarrow> Inl e)
      else Inr w)"

text \<open>\<open>get\<close> of both list views: the sync check, then the framework's list rendering.\<close>

definition list_view_get :: "list_view \<Rightarrow> request \<Rightarrow> world \<Rightarrow> error + response \<times> world" where
  "list_view_get v req w =
     (case check_sync v req w of
        Inl e \<Rightarrow> Inl e
      | Inr w' \<Rightarrow> Inr (RenderList (lv_template_name v), w'))"

section \<open>BulkImportView\<close>

text \<open>
  The class attributes of a bulk import view. \<open>queryset_model\<close> is the app label and
  the model name of \<open>self.queryset.model\<close>, the Nautobot model the import creates.
\<close>

record bulk_import_view =
  return_url :: string
  model :: import_model
  form :: form_class
  bulk_import_url :: string
  breadcrumb_name :: string
  permission_required :: string
  queryset_model :: "string \<times> string"

definition ManufacturerBulkImportView :: bulk_import_view where
  "ManufacturerBulkImportView =
     \<lparr>return_url = ''plugins:welcome_wizard:manufacturers'',
      model = ManufacturerImport,
      form = ManufacturerBulkImportForm,
      bulk_import_url = ''plugins:welcome_wizard:manufacturer_import'',
      breadcrumb_name = ''Import Manufacturers'',
      permission_required = ''dcim.add_manufacturer'',
      queryset_model = (''dcim'', ''manufacturer'')\<rparr>"

definition DeviceTypeBulkImportView :: bulk_import_view where
  "DeviceTypeBulkImportView =
     \<lparr>return_url = ''plugins:welcome_wizard:devicetypes'',
      model = DeviceTypeImport,
      form = DeviceTypeBulkImportForm,
      bulk_import_url = ''plugins:welcome_wizard:devicetype_import'',
      breadcrumb_name = ''Import Device Types'',
      permission_required = ''dcim.add_devicetype'',
      queryset_model = (''dcim'', ''devicetype'')\<rparr>"

text \<open>Nautobot's \<open>get_permission_for_model\<close>: \<open>app_label.action_modelname\<close>.\<close>

definition get_permission_for_model :: "string \<times> string \<Rightarrow> string \<Rightarrow> string" where
  "get_permission_for_model m action = fst m @ ''.'' @ action @ ''_'' @ snd m"

text \<open>\<open>dispatch\<close> sets the permission action to \<open>add\<close> before \<open>post\<close> runs;
  \<open>has_permission\<close> of Nautobot's mixin asks whether the user holds the required
  permission.\<close>

definition get_required_permission :: "bulk_import_view \<Rightarrow> string" where
  "get_required_permission v = get_permission_for_model (queryset_model v) ''add''"

definition has_permission :: "bulk_import_view \<Rightarrow> request \<Rightarrow> world \<Rightarrow> bool" where
  "has_permission v req w = (get_required_permission v \<in> user_perms w (req_user req))"

definition get :: "bulk_import_view \<Rightarrow> request \<Rightarrow> world \<Rightarrow> error + response" where
  "get v req w =
     (if querydict_get (GET req) ''pk'' = None then Inr (Redirect (return_url v))
      else
        (case querydict_getitem (GET req) ''pk'' of
           Inl e \<Rightarrow> Inl e
         | Inr primarykey \<Rightarrow>
             (let initial = [(''pk'', [primarykey])] in
              case objects_get (\<lambda>x. obj_pk x = primarykey) (model_objects (model v) w) of
                Inl e \<Rightarrow> Inl e
              | Inr obj \<Rightarrow>
                  Inr (RenderImport ''welcome_wizard/import.html''
                         \<lparr>ctx_form = (form v, initial),
                          ctx_obj = obj,
                          ctx_return_url = return_url v,
                          ctx_bulk_import_url = bulk_import_url v,
                          ctx_breadcrumb_name = breadcrumb_name v\<rparr>))))"

text \<open>
  The body of the loop of \<open>post\<close> for one object: the state and the list \<open>onboarded\<close>
  are threaded through.
\<close>

definition import_obj_step ::
    "bulk_import_view \<Rightarrow> request \<Rightarrow> import_obj \<Rightarrow> world \<times> string list
       \<Rightarrow> error + world \<times> string list" where
  "import_obj_step v req obj st =
     (case st of (w, onboarded) \<Rightarrow>
        if model v = ManufacturerImport then
          (case objects_get (\<lambda>j. job_name j = ''Welcome Wizard - Import Manufacturer'') (jobs w) of
             Inl e \<Rightarrow> Inl e
           | Inr j \<Rightarrow>
               Inr (enqueue_job j (req_user req) [(''manufacturer_name'', obj_name obj)] w,
                    onboarded @ [obj_name obj]))
        else if model v = DeviceTypeImport then
          (case objects_get (\<lambda>j. job_name j = ''Welcome Wizard - Import Device Type'') (jobs w) of
             Inl e \<Rightarrow> Inl e
           | Inr j \<Rightarrow>
               (case obj_filename obj of
                  Inl e \<Rightarrow> Inl e
                | Inr f \<Rightarrow>
                    Inr (enqueue_job j (req_user req) [(''filename'', f)] w,
                         onboarded @ [obj_name obj])))
        else Inr (w, onboarded))"

fun import_loop ::
    "bulk_import_view \<Rightarrow> request \<Rightarrow> import_obj list \<Rightarrow> world \<times> string list
       \<Rightarrow> error + world \<times> string list" where
  "import_loop v req [] st = Inr st"
| "import_loop v req (obj # objs) st =
     (case import_obj_step v req obj st of
        Inl e \<Rightarrow> Inl e
      | Inr st' \<Rightarrow> import_loop v req objs st')"

text \<open>
  \<open>post\<close>. The form classes live in \<^verbatim>\<open>welcome_wizard/forms.py\<close>; what \<open>is_valid\<close>
  answers for a form class, the submitted data and the database is the parameter
  \<open>is_valid\<close>.
\<close>

definition post ::
    "(form_class \<Rightarrow> querydict \<Rightarrow> world \<Rightarrow> bool) \<Rightarrow> bulk_import_view \<Rightarrow> request \<Rightarrow> world
       \<Rightarrow> error + response \<times> world" where
  "post is_valid v req w =
     (if \<not> has_permission v req w then Inr (HttpResponseForbidden, w)
      else if is_valid (form v) (POST req) w then
        (let pk_list = querydict_getlist (POST req) ''pk'' in
         case import_loop v req
                (filter (\<lambda>x. obj_pk x \<in> set pk_list) (model_objects (model v) w)) (w, [])
         of
           Inl e \<Rightarrow> Inl e
         | Inr (w', onboarded) \<Rightarrow>
             Inr (Redirect (return_url v),
                  messages_success
                    (''Onboarded '' @ str_nat (length onboarded) @ '' objects.'') w'))
      else Inr (Redirect (return_url v), w))"

section \<open>WelcomeWizardDashboard.check_data\<close>

text \<open>
  The fixed list the loop of \<open>check_data\<close> runs over: the model, the name of the row,
  and the list, add and wizard links. \<open>inventory_exists\<close> of the state answers
  \<open>nautobot_object.objects.exists()\<close>.
\<close>

type_synonym descriptor = "nautobot_model \<times> string \<times> string \<times> string \<times> string"

definition descriptors :: "descriptor list" where
  "descriptors =
     [(Location, ''Locations'', ''dcim:location_list'', ''dcim:location_add'', ''''),
      (Manufacturer, ''Manufacturers'', ''dcim:manufacturer_list'', ''dcim:manufacturer_add'',
         ''plugins:welcome_wizard:manufacturer_import''),
      (DeviceType, ''Device Types'', ''dcim:devicetype_list'', ''dcim:devicetype_add'',
         ''plugins:welcome_wizard:devicetype_import''),
      (CircuitType, ''Circuit Types'', ''circuits:circuittype_list'', ''circuits:circuittype_add'',
         ''''),
      (Provider, ''Circuit Providers'', ''circuits:provider_list'', ''circuits:provider_add'', ''''),
      (RIR, ''RIRs'', ''ipam:rir_list'', ''ipam:rir_add'', ''''),
      (ClusterType, ''VM Cluster Types'', ''virtualization:clustertype_list'',
         ''virtualization:clustertype_add'', '''')]"

text \<open>\<open>Merlin.objects.filter(name=var_name).update(completed=completed)\<close>.\<close>

definition merlin_filter_update :: "string \<Rightarrow> bool \<Rightarrow> merlin list \<Rightarrow> merlin list" where
  "merlin_filter_update var_name c ms =
     map (\<lambda>m. if merlin_name m = var_name then m\<lparr>completed := c\<rparr> else m) ms"

definition merlin_create :: "merlin \<Rightarrow> merlin list \<Rightarrow> merlin list" where
  "merlin_create m ms = ms @ [m]"

text \<open>
  One turn of the loop of \<open>check_data\<close>, on the Merlin table. The \<open>except\<close> clause
  catches \<open>DoesNotExist\<close>, after which the row is created; \<open>MultipleObjectsReturned\<close>
  leaves the method.
\<close>

fun check_item :: "(nautobot_model \<Rightarrow> bool) \<Rightarrow> descriptor \<Rightarrow> merlin list \<Rightarrow> error + merlin list" where
  "check_item ex (nautobot_object, var_name, list_url, new_url, wizard_url) ms =
     (let completed = ex nautobot_object;
          ms1 = merlin_filter_update var_name completed ms
      in case objects_get (\<lambda>m. merlin_name m = var_name) ms1 of
           Inr merlin_id \<Rightarrow> Inr ms1
         | Inl DoesNotExist \<Rightarrow>
             Inr (merlin_create
                    \<lparr>merlin_name = var_name,
                     completed = completed,
                     ignored = False,
                     nautobot_model = nautobot_object,
                     nautobot_add_link = new_url,
                     merlin_link = wizard_url,
                     nautobot_list_link = list_url\<rparr> ms1)
         | Inl e \<Rightarrow> Inl e)"

fun check_loop :: "(nautobot_model \<Rightarrow> bool) \<Rightarrow> descriptor list \<Rightarrow> merlin list \<Rightarrow> error + merlin list" where
  "check_loop ex [] ms = Inr ms"
| "check_loop ex (d # ds) ms =
     (case check_item ex d ms of
        Inl e \<Rightarrow> Inl e
      | Inr ms' \<Rightarrow> check_loop ex ds ms')"

definition check_data :: "world \<Rightarrow> error + world" where
  "check_data w =
     (case check_loop (inventory_exists w) descriptors (merlins w) of
        Inl e \<Rightarrow> Inl e
      | Inr ms \<Rightarrow> Inr (w\<lparr>merlins := ms\<rparr>))"

text \<open>Every field of a row but \<open>completed\<close>.\<close>

definition fields_but_completed ::
    "merlin \<Rightarrow> string \<times> bool \<times> nautobot_model \<times> string \<times> string \<times> string" where
  "fields_but_completed m =
     (merlin_name m, ignored m, nautobot_model m, nautobot_add_link m, merlin_link m,
      nautobot_list_link m)"

text \<open>The row that \<open>Merlin.objects.create\<close> is called with for a descriptor.\<close>

definition new_merlin :: "(nautobot_model \<Rightarrow> bool) \<Rightarrow> descriptor \<Rightarrow> merlin" where
  "new_merlin ex d =
     (case d of (nautobot_object, var_name, list_url, new_url, wizard_url) \<Rightarrow>
        \<lparr>merlin_name = var_name, completed = ex nautobot_object, ignored = False,
         nautobot_model = nautobot_object, nautobot_add_link = new_url,
         merlin_link = wizard_url, nautobot_list_link = list_url\<rparr>)"

section \<open>Example data\<close>

text \<open>A small database, used where a theorem is applied to a concrete request.\<close>

definition cisco :: manufacturer_import where
  "cisco = \<lparr>mi_pk = ''1'', mi_name = ''Cisco''\<rparr>"

definition juniper :: manufacturer_import where
  "juniper = \<lparr>mi_pk = ''2'', mi_name = ''Juniper''\<rparr>"

definition mx480 :: devicetype_import where
  "mx480 = \<lparr>dt_pk = ''10'', dt_name = ''MX480'', dt_filename = ''MX480.yaml''\<rparr>"

definition import_manufacturer_job :: job where
  "import_manufacturer_job = \<lparr>job_name = ''Welcome Wizard - Import Manufacturer''\<rparr>"

definition import_device_type_job :: job where
  "import_device_type_job = \<lparr>job_name = ''Welcome Wizard - Import Device Type''\<rparr>"

definition example_world :: world where
  "example_world =
     \<lparr>plugins_config = [''enable_devicetype-library'' \<mapsto> True],
      user_perms =
        (\<lambda>u. if u = ''admin'' then {''dcim.add_manufacturer'', ''dcim.add_devicetype''} else {}),
      inventory_exists = (\<lambda>m. m = Manufacturer),
      manufacturer_imports = [cisco, juniper],
      devicetype_imports = [mx480],
      git_repositories = [],
      jobs = [import_manufacturer_job, import_device_type_job],
      merlins = [],
      job_queue = [],
      sync_queue = [],
      messages = []\<rparr>"

text \<open>The same database before anything was synchronised: both import tables empty.\<close>

definition empty_world :: world where
  "empty_world = example_world\<lparr>manufacturer_imports := [], devicetype_imports := []\<rparr>"

definition example_request :: "user \<Rightarrow> string list \<Rightarrow> request" where
  "example_request u pks = \<lparr>req_user = u, GET = [''pk'' \<mapsto> pks], POST = [''pk'' \<mapsto> pks]\<rparr>"

definition always_valid :: "form_class \<Rightarrow> querydict \<Rightarrow> world \<Rightarrow> bool" where
  "always_valid f q w = True"

definition never_valid :: "form_class \<Rightarrow> querydict \<Rightarrow> world \<Rightarrow> bool" where
  "never_valid f q w = False"

text \<open>A dashboard that was visited before: one row exists, with a stale answer and the
  user's \<open>ignored\<close> mark; and the table expected after \<open>check_data\<close>.\<close>

definition stale_manufacturers_row :: merlin where
  "stale_manufacturers_row =
     \<lparr>merlin_name = ''Manufacturers'', completed = False, ignored = True,
      nautobot_model = Manufacturer, nautobot_add_link = ''dcim:manufacturer_add'',
      merlin_link = ''plugins:welcome_wizard:manufacturer_import'',
      nautobot_list_link = ''dcim:manufacturer_list''\<rparr>"

definition visited_world :: world where
  "visited_world = example_world\<lparr>merlins := [stale_manufacturers_row]\<rparr>"

definition visited_dashboard :: "merlin list" where
  "visited_dashboard =
     [stale_manufacturers_row\<lparr>completed := True\<rparr>,
      \<lparr>merlin_name = ''Locations'', completed = False, ignored = False,
       nautobot_model = Location, nautobot_add_link = ''dcim:location_add'',
       merlin_link = '''', nautobot_list_link = ''dcim:location_list''\<rparr>,
      \<lparr>merlin_name = ''Device Types'', completed = False, ignored = False,
       nautobot_model = DeviceType, nautobot_add_link = ''dcim:devicetype_add'',
       merlin_link = ''plugins:welcome_wizard:devicetype_import'',
       nautobot_list_link = ''dcim:devicetype_list''\<rparr>,
      \<lparr>merlin_name = ''Circuit Types'', completed = False, ignored = False,
       nautobot_model = CircuitType, nautobot_add_link = ''circuits:circuittype_add'',
       merlin_link = '''', nautobot_list_link = ''circuits:circuittype_list''\<rparr>,
      \<lparr>merlin_name = ''Circuit Providers'', completed = False, ignored = False,
       nautobot_model = Provider, nautobot_add_link = ''circuits:provider_add'',
       merlin_link = '''', nautobot_list_link = ''circuits:provider_list''\<rparr>,
      \<lparr>merlin_name = ''RIRs'', completed = False, ignored = False,
       nautobot_model = RIR, nautobot_add_link = ''ipam:rir_add'',
       merlin_link = '''', nautobot_list_link = ''ipam:rir_list''\<rparr>,
      \<lparr>merlin_name = ''VM Cluster Types'', completed = False, ignored = False,
       nautobot_model = ClusterType, nautobot_add_link = ''virtualization:clustertype_add'',
       merlin_link = '''', nautobot_list_link = ''virtualization:clustertype_list''\<rparr>]"

definition all_populated :: "nautobot_model \<Rightarrow> bool" where
  "all_populated m = True"

section \<open>Permissions of the two import views\<close>

lemma required_permission_manufacturer:
  "get_required_permission ManufacturerBulkImportView = ''dcim.add_manufacturer''"
  by (simp add: get_required_permission_def get_permission_for_model_def
      ManufacturerBulkImportView_def)

lemma required_permission_devicetype:
  "get_required_permission DeviceTypeBulkImportView = ''dcim.add_devicetype''"
  by (simp add: get_required_permission_def get_permission_for_model_def
      DeviceTypeBulkImportView_def)

lemma admin_has_permission_manufacturer:
  "has_permission ManufacturerBulkImportView (example_request ''admin'' pks) example_world"
  by (simp add: has_permission_def required_permission_manufacturer example_world_def
      example_request_def)

lemma admin_has_permission_devicetype:
  "has_permission DeviceTypeBulkImportView (example_request ''admin'' pks) example_world"
  by (simp add: has_permission_def required_permission_devicetype example_world_def
      example_request_def)

lemma return_url_manufacturer:
  "return_url ManufacturerBulkImportView = ''plugins:welcome_wizard:manufacturers''"
  by (simp add: ManufacturerBulkImportView_def)

section \<open>post: the rejected and the invalid submission\<close>

text \<open>
  Claim C4. A POST by a user who lacks the add permission of the view's target model is
  answered with \<open>HttpResponseForbidden\<close> and the state is returned as it was: no job is
  enqueued, no message is emitted, and the response is not a redirect. What the form
  validation would have answered plays no role (\<open>is_valid\<close> is arbitrary).
\<close>

theorem post_forbidden:
  "get_required_permission v \<notin> user_perms w (req_user req) \<Longrightarrow>
     post is_valid v req w = Inr (HttpResponseForbidden, w)"
  by (simp add: post_def has_permission_def)

theorem post_forbidden_witness:
  "get_required_permission ManufacturerBulkImportView
      \<notin> user_perms example_world (req_user (example_request ''guest'' [''1'', ''2'']))
   \<and> post always_valid ManufacturerBulkImportView (example_request ''guest'' [''1'', ''2''])
         example_world
      = Inr (HttpResponseForbidden, example_world)"
proof -
  have p: "get_required_permission ManufacturerBulkImportView
      \<notin> user_perms example_world (req_user (example_request ''guest'' [''1'', ''2'']))"
    by (simp add: required_permission_manufacturer example_world_def example_request_def)
  show ?thesis
    using p post_forbidden [OF p, of always_valid] by simp
qed

text \<open>
  Claim C7. When the permitted user's form data fails validation, \<open>post\<close> only redirects
  to the return location: the state is returned as it was, so no job is enqueued and no
  message (success or error) is emitted.
\<close>

theorem post_invalid_form:
  "has_permission v req w \<Longrightarrow> \<not> is_valid (form v) (POST req) w \<Longrightarrow>
     post is_valid v req w = Inr (Redirect (return_url v), w)"
  by (simp add: post_def)

theorem post_invalid_form_witness:
  "has_permission ManufacturerBulkImportView (example_request ''admin'' [''1'']) example_world
   \<and> \<not> never_valid (form ManufacturerBulkImportView) (POST (example_request ''admin'' [''1'']))
          example_world
   \<and> post never_valid ManufacturerBulkImportView (example_request ''admin'' [''1''])
         example_world
      = Inr (Redirect ''plugins:welcome_wizard:manufacturers'', example_world)"
proof -
  have n: "\<not> never_valid (form ManufacturerBulkImportView)
             (POST (example_request ''admin'' [''1''])) example_world"
    by (simp add: never_valid_def)
  have p: "has_permission ManufacturerBulkImportView (example_request ''admin'' [''1''])
             example_world"
    by (rule admin_has_permission_manufacturer)
  show ?thesis
    using n p return_url_manufacturer
      post_invalid_form [of ManufacturerBulkImportView "example_request ''admin'' [''1'']"
        example_world never_valid, OF p n]
    by simp
qed

section \<open>post: the import loop\<close>

lemma jobs_enqueue_job [simp]: "jobs (enqueue_job j u k w) = jobs w"
  by (simp add: enqueue_job_def)

lemma import_loop_manufacturer:
  "model v = ManufacturerImport \<Longrightarrow>
   objects_get (\<lambda>j. job_name j = ''Welcome Wizard - Import Manufacturer'') (jobs w) = Inr j \<Longrightarrow>
   import_loop v req objs (w, acc) =
     Inr (w\<lparr>job_queue := job_queue w @
              map (\<lambda>x. \<lparr>job_model = j, job_user = req_user req,
                         job_kwargs = [(''manufacturer_name'', obj_name x)]\<rparr>) objs\<rparr>,
          acc @ map obj_name objs)"
proof (induction objs arbitrary: w acc)
  case Nil
  then show ?case by simp
next
  case (Cons x xs)
  have step: "import_obj_step v req x (w, acc) =
      Inr (enqueue_job j (req_user req) [(''manufacturer_name'', obj_name x)] w, acc @ [obj_name x])"
    using Cons.prems by (simp add: import_obj_step_def)
  have "objects_get (\<lambda>j. job_name j = ''Welcome Wizard - Import Manufacturer'')
          (jobs (enqueue_job j (req_user req) [(''manufacturer_name'', obj_name x)] w)) = Inr j"
    using Cons.prems by simp
  from Cons.IH [OF Cons.prems(1) this] step show ?case
    by (simp add: enqueue_job_def)
qed

lemma import_loop_devicetype:
  "model v = DeviceTypeImport \<Longrightarrow>
   objects_get (\<lambda>j. job_name j = ''Welcome Wizard - Import Device Type'') (jobs w) = Inr j \<Longrightarrow>
   import_loop v req (map DeviceTypeObj ds) (w, acc) =
     Inr (w\<lparr>job_queue := job_queue w @
              map (\<lambda>d. \<lparr>job_model = j, job_user = req_user req,
                         job_kwargs = [(''filename'', dt_filename d)]\<rparr>) ds\<rparr>,
          acc @ map dt_name ds)"
proof (induction ds arbitrary: w acc)
  case Nil
  then show ?case by simp
next
  case (Cons x xs)
  have step: "import_obj_step v req (DeviceTypeObj x) (w, acc) =
      Inr (enqueue_job j (req_user req) [(''filename'', dt_filename x)] w, acc @ [dt_name x])"
    using Cons.prems by (simp add: import_obj_step_def)
  have "objects_get (\<lambda>j. job_name j = ''Welcome Wizard - Import Device Type'')
          (jobs (enqueue_job j (req_user req) [(''filename'', dt_filename x)] w)) = Inr j"
    using Cons.prems by simp
  from Cons.IH [OF Cons.prems(1) this] step show ?case
    by (simp add: enqueue_job_def)
qed

lemma filter_map_obj:
  "filter (\<lambda>x. obj_pk x \<in> S) (map DeviceTypeObj ds) = map DeviceTypeObj (filter (\<lambda>d. dt_pk d \<in> S) ds)"
  "filter (\<lambda>x. obj_pk x \<in> S) (map ManufacturerObj ms) = map ManufacturerObj (filter (\<lambda>d. mi_pk d \<in> S) ms)"
  by (induction ds) (simp_all add: filter_map o_def)

lemma matched_count:
  assumes "distinct (map f rows)"
  shows "length (filter (\<lambda>r. f r \<in> S) rows) = card (S \<inter> f ` set rows)"
proof -
  have "distinct (filter (\<lambda>p. p \<in> S) (map f rows))"
    using assms by (rule distinct_filter)
  then have "card (set (filter (\<lambda>p. p \<in> S) (map f rows)))
      = length (filter (\<lambda>p. p \<in> S) (map f rows))"
    by (rule distinct_card)
  moreover have "set (filter (\<lambda>p. p \<in> S) (map f rows)) = S \<inter> f ` set rows"
    by auto
  moreover have "length (filter (\<lambda>p. p \<in> S) (map f rows)) = length (filter (\<lambda>r. f r \<in> S) rows)"
    by (simp add: filter_map o_def)
  ultimately show ?thesis by simp
qed

lemma import_obj_step_counts:
  "import_obj_step v req x (w, acc) = Inr (w', acc') \<Longrightarrow>
     length (job_queue w') = Suc (length (job_queue w)) \<and> length acc' = Suc (length acc)
     \<and> messages w' = messages w"
  by (cases "model v")
     (auto simp: import_obj_step_def enqueue_job_def split: sum.splits)

lemma import_loop_counts:
  "import_loop v req objs (w, acc) = Inr (w', acc') \<Longrightarrow>
     length acc' + length (job_queue w) = length acc + length (job_queue w')
     \<and> length (job_queue w) \<le> length (job_queue w')
     \<and> messages w' = messages w"
proof (induction objs arbitrary: w acc)
  case Nil
  then show ?case by simp
next
  case (Cons x xs)
  from Cons.prems obtain w1 acc1 where
    s: "import_obj_step v req x (w, acc) = Inr (w1, acc1)" and
    l: "import_loop v req xs (w1, acc1) = Inr (w', acc')"
    by (auto split: sum.splits)
  from import_obj_step_counts [OF s] Cons.IH [OF l] show ?case by simp
qed

lemma str_nat_0: "str_nat 0 = ''0''"
  by (simp add: str_nat.simps)

lemma lookup_manufacturer_job:
  "objects_get (\<lambda>j. job_name j = ''Welcome Wizard - Import Manufacturer'') (jobs example_world)
     = Inr import_manufacturer_job"
  by (simp add: objects_get_def example_world_def import_manufacturer_job_def
      import_device_type_job_def)

lemma lookup_device_type_job:
  "objects_get (\<lambda>j. job_name j = ''Welcome Wizard - Import Device Type'') (jobs example_world)
     = Inr import_device_type_job"
  by (simp add: objects_get_def example_world_def import_manufacturer_job_def
      import_device_type_job_def)

lemma always_valid_holds: "always_valid f q w"
  by (simp add: always_valid_def)

lemma model_manufacturer: "model ManufacturerBulkImportView = ManufacturerImport"
  by (simp add: ManufacturerBulkImportView_def)

lemma model_devicetype: "model DeviceTypeBulkImportView = DeviceTypeImport"
  by (simp add: DeviceTypeBulkImportView_def)

lemma return_url_devicetype:
  "return_url DeviceTypeBulkImportView = ''plugins:welcome_wizard:devicetypes''"
  by (simp add: DeviceTypeBulkImportView_def)

lemma example_tables:
  "manufacturer_imports example_world = [cisco, juniper]"
  "devicetype_imports example_world = [mx480]"
  "job_queue example_world = []"
  "messages example_world = []"
  by (simp_all add: example_world_def)

lemma example_post_pks: "querydict_getlist (POST (example_request u pks)) ''pk'' = pks"
  by (simp add: querydict_getlist_def example_request_def)

lemma example_req_user: "req_user (example_request u pks) = u"
  by (simp add: example_request_def)

lemma example_post_value:
  "post always_valid ManufacturerBulkImportView (example_request ''admin'' [''1'', ''2''])
     example_world
   = Inr (Redirect ''plugins:welcome_wizard:manufacturers'',
          example_world
            \<lparr>job_queue :=
               [\<lparr>job_model = import_manufacturer_job, job_user = ''admin'',
                 job_kwargs = [(''manufacturer_name'', ''Cisco'')]\<rparr>,
                \<lparr>job_model = import_manufacturer_job, job_user = ''admin'',
                 job_kwargs = [(''manufacturer_name'', ''Juniper'')]\<rparr>],
             messages := [''Onboarded 2 objects.'']\<rparr>)"
proof -
  have l: "import_loop ManufacturerBulkImportView (example_request ''admin'' [''1'', ''2''])
          [ManufacturerObj cisco, ManufacturerObj juniper] (example_world, []) =
        Inr (example_world\<lparr>job_queue := job_queue example_world @
              map (\<lambda>x. \<lparr>job_model = import_manufacturer_job,
                         job_user = req_user (example_request ''admin'' [''1'', ''2'']),
                         job_kwargs = [(''manufacturer_name'', obj_name x)]\<rparr>)
                [ManufacturerObj cisco, ManufacturerObj juniper]\<rparr>,
             [] @ map obj_name [ManufacturerObj cisco, ManufacturerObj juniper])"
    by (rule import_loop_manufacturer [OF model_manufacturer lookup_manufacturer_job])
  have s: "str_nat (Suc (Suc 0)) = ''2''"
    by (simp add: str_nat.simps)
  show ?thesis
    using l
    by (simp add: post_def admin_has_permission_manufacturer always_valid_holds
        model_manufacturer return_url_manufacturer example_tables example_post_pks
        example_req_user cisco_def juniper_def messages_success_def s)
qed

text \<open>
  Claim C1. For a permitted user and a valid form, \<open>post\<close> enqueues one job for each
  record of the view's import model whose pk is among the submitted \<open>pk\<close> values, and
  nothing for a submitted value that matches no record; it answers with the redirect. For
  \<open>ManufacturerImport\<close> the job is the one registered under the name
  \<open>Welcome Wizard - Import Manufacturer\<close>, with \<open>manufacturer_name\<close> the record's
  name; for \<open>DeviceTypeImport\<close> it is the one registered under
  \<open>Welcome Wizard - Import Device Type\<close>, with \<open>filename\<close> the record's filename.
  Where the pks of the table are distinct, the number of new jobs is the number of
  submitted identifiers that match a record. The job must be registered: its lookup is
  the hypothesis \<open>objects_get \<dots> = Inr j\<close>.
\<close>

theorem post_enqueues_matched:
  assumes "has_permission v req w" and "is_valid (form v) (POST req) w"
  shows "(model v = ManufacturerImport \<longrightarrow>
            objects_get (\<lambda>j. job_name j = ''Welcome Wizard - Import Manufacturer'') (jobs w) = Inr jm \<longrightarrow>
            (\<exists>w'. post is_valid v req w = Inr (Redirect (return_url v), w') \<and>
               job_queue w' = job_queue w @
                 map (\<lambda>m. \<lparr>job_model = jm, job_user = req_user req,
                            job_kwargs = [(''manufacturer_name'', mi_name m)]\<rparr>)
                   (filter (\<lambda>m. mi_pk m \<in> set (querydict_getlist (POST req) ''pk''))
                      (manufacturer_imports w)) \<and>
               (distinct (map mi_pk (manufacturer_imports w)) \<longrightarrow>
                  length (job_queue w') = length (job_queue w) +
                    card (set (querydict_getlist (POST req) ''pk'')
                            \<inter> mi_pk ` set (manufacturer_imports w)))))
       \<and> (model v = DeviceTypeImport \<longrightarrow>
            objects_get (\<lambda>j. job_name j = ''Welcome Wizard - Import Device Type'') (jobs w) = Inr jd \<longrightarrow>
            (\<exists>w'. post is_valid v req w = Inr (Redirect (return_url v), w') \<and>
               job_queue w' = job_queue w @
                 map (\<lambda>d. \<lparr>job_model = jd, job_user = req_user req,
                            job_kwargs = [(''filename'', dt_filename d)]\<rparr>)
                   (filter (\<lambda>d. dt_pk d \<in> set (querydict_getlist (POST req) ''pk''))
                      (devicetype_imports w)) \<and>
               (distinct (map dt_pk (devicetype_imports w)) \<longrightarrow>
                  length (job_queue w') = length (job_queue w) +
                    card (set (querydict_getlist (POST req) ''pk'')
                            \<inter> dt_pk ` set (devicetype_imports w)))))"
proof (intro conjI impI)
  assume m: "model v = ManufacturerImport"
    and j: "objects_get (\<lambda>j. job_name j = ''Welcome Wizard - Import Manufacturer'') (jobs w) = Inr jm"
  let ?S = "set (querydict_getlist (POST req) ''pk'')"
  let ?rows = "filter (\<lambda>m. mi_pk m \<in> ?S) (manufacturer_imports w)"
  have loop: "import_loop v req (map ManufacturerObj ?rows) (w, []) =
      Inr (w\<lparr>job_queue := job_queue w @
              map (\<lambda>x. \<lparr>job_model = jm, job_user = req_user req,
                         job_kwargs = [(''manufacturer_name'', obj_name x)]\<rparr>)
                (map ManufacturerObj ?rows)\<rparr>,
           [] @ map obj_name (map ManufacturerObj ?rows))"
    by (rule import_loop_manufacturer [OF m j])
  show "\<exists>w'. post is_valid v req w = Inr (Redirect (return_url v), w') \<and>
               job_queue w' = job_queue w @
                 map (\<lambda>m. \<lparr>job_model = jm, job_user = req_user req,
                            job_kwargs = [(''manufacturer_name'', mi_name m)]\<rparr>) ?rows \<and>
               (distinct (map mi_pk (manufacturer_imports w)) \<longrightarrow>
                  length (job_queue w') = length (job_queue w) +
                    card (?S \<inter> mi_pk ` set (manufacturer_imports w)))"
    using assms m loop
    by (simp add: post_def filter_map_obj messages_success_def o_def matched_count)
next
  assume m: "model v = DeviceTypeImport"
    and j: "objects_get (\<lambda>j. job_name j = ''Welcome Wizard - Import Device Type'') (jobs w) = Inr jd"
  let ?S = "set (querydict_getlist (POST req) ''pk'')"
  let ?rows = "filter (\<lambda>d. dt_pk d \<in> ?S) (devicetype_imports w)"
  have loop: "import_loop v req (map DeviceTypeObj ?rows) (w, []) =
      Inr (w\<lparr>job_queue := job_queue w @
              map (\<lambda>d. \<lparr>job_model = jd, job_user = req_user req,
                         job_kwargs = [(''filename'', dt_filename d)]\<rparr>) ?rows\<rparr>,
           [] @ map dt_name ?rows)"
    by (rule import_loop_devicetype [OF m j])
  show "\<exists>w'. post is_valid v req w = Inr (Redirect (return_url v), w') \<and>
               job_queue w' = job_queue w @
                 map (\<lambda>d. \<lparr>job_model = jd, job_user = req_user req,
                            job_kwargs = [(''filename'', dt_filename d)]\<rparr>) ?rows \<and>
               (distinct (map dt_pk (devicetype_imports w)) \<longrightarrow>
                  length (job_queue w') = length (job_queue w) +
                    card (?S \<inter> dt_pk ` set (devicetype_imports w)))"
    using assms m loop
    by (simp add: post_def filter_map_obj messages_success_def o_def matched_count)
qed

theorem post_enqueues_matched_witness:
  "has_permission ManufacturerBulkImportView (example_request ''admin'' [''1'', ''2'', ''99''])
     example_world
   \<and> always_valid (form ManufacturerBulkImportView)
        (POST (example_request ''admin'' [''1'', ''2'', ''99''])) example_world
   \<and> (\<exists>w'. post always_valid ManufacturerBulkImportView
               (example_request ''admin'' [''1'', ''2'', ''99'']) example_world
             = Inr (Redirect ''plugins:welcome_wizard:manufacturers'', w')
           \<and> job_queue w' =
               [\<lparr>job_model = import_manufacturer_job, job_user = ''admin'',
                 job_kwargs = [(''manufacturer_name'', ''Cisco'')]\<rparr>,
                \<lparr>job_model = import_manufacturer_job, job_user = ''admin'',
                 job_kwargs = [(''manufacturer_name'', ''Juniper'')]\<rparr>])
   \<and> has_permission DeviceTypeBulkImportView (example_request ''admin'' [''10'']) example_world
   \<and> (\<exists>w'. post always_valid DeviceTypeBulkImportView (example_request ''admin'' [''10''])
               example_world
             = Inr (Redirect ''plugins:welcome_wizard:devicetypes'', w')
           \<and> job_queue w' =
               [\<lparr>job_model = import_device_type_job, job_user = ''admin'',
                 job_kwargs = [(''filename'', ''MX480.yaml'')]\<rparr>])"
proof -
  have pm: "has_permission ManufacturerBulkImportView
              (example_request ''admin'' [''1'', ''2'', ''99'']) example_world"
    by (rule admin_has_permission_manufacturer)
  have pd: "has_permission DeviceTypeBulkImportView (example_request ''admin'' [''10''])
              example_world"
    by (rule admin_has_permission_devicetype)
  have vm: "always_valid (form ManufacturerBulkImportView)
              (POST (example_request ''admin'' [''1'', ''2'', ''99''])) example_world"
    by (rule always_valid_holds)
  have vd: "always_valid (form DeviceTypeBulkImportView)
              (POST (example_request ''admin'' [''10''])) example_world"
    by (rule always_valid_holds)
  note m = post_enqueues_matched
      [of ManufacturerBulkImportView "example_request ''admin'' [''1'', ''2'', ''99'']"
        example_world always_valid import_manufacturer_job import_device_type_job, OF pm vm]
  note d = post_enqueues_matched
      [of DeviceTypeBulkImportView "example_request ''admin'' [''10'']"
        example_world always_valid import_manufacturer_job import_device_type_job, OF pd vd]
  have m': "\<exists>w'. post always_valid ManufacturerBulkImportView
               (example_request ''admin'' [''1'', ''2'', ''99'']) example_world
             = Inr (Redirect ''plugins:welcome_wizard:manufacturers'', w')
           \<and> job_queue w' =
               [\<lparr>job_model = import_manufacturer_job, job_user = ''admin'',
                 job_kwargs = [(''manufacturer_name'', ''Cisco'')]\<rparr>,
                \<lparr>job_model = import_manufacturer_job, job_user = ''admin'',
                 job_kwargs = [(''manufacturer_name'', ''Juniper'')]\<rparr>]"
    using m lookup_manufacturer_job
    by (auto simp: model_manufacturer return_url_manufacturer example_tables example_post_pks
        example_req_user cisco_def juniper_def)
  have d': "\<exists>w'. post always_valid DeviceTypeBulkImportView (example_request ''admin'' [''10''])
               example_world
             = Inr (Redirect ''plugins:welcome_wizard:devicetypes'', w')
           \<and> job_queue w' =
               [\<lparr>job_model = import_device_type_job, job_user = ''admin'',
                 job_kwargs = [(''filename'', ''MX480.yaml'')]\<rparr>]"
    using d lookup_device_type_job
    by (auto simp: model_devicetype return_url_devicetype example_tables example_post_pks
        example_req_user mx480_def)
  show ?thesis by (intro conjI pm vm m' pd d')
qed

lemma post_message_effect:
  assumes "has_permission v req w" and "is_valid (form v) (POST req) w"
  shows "(post is_valid v req w = Inr (resp, w') \<longrightarrow>
            resp = Redirect (return_url v) \<and>
            length (job_queue w) \<le> length (job_queue w') \<and>
            messages w' = messages w @
              [''Onboarded '' @ str_nat (length (job_queue w') - length (job_queue w))
                 @ '' objects.''])
       \<and> (filter (\<lambda>x. obj_pk x \<in> set (querydict_getlist (POST req) ''pk''))
             (model_objects (model v) w) = [] \<longrightarrow>
            post is_valid v req w =
              Inr (Redirect (return_url v), w\<lparr>messages := messages w @ [''Onboarded 0 objects.'']\<rparr>))"
proof (intro conjI impI)
  assume p: "post is_valid v req w = Inr (resp, w')"
  let ?objs = "filter (\<lambda>x. obj_pk x \<in> set (querydict_getlist (POST req) ''pk''))
             (model_objects (model v) w)"
  from p assms obtain w1 onboarded where
    l: "import_loop v req ?objs (w, []) = Inr (w1, onboarded)" and
    r: "resp = Redirect (return_url v)" and
    w': "w' = messages_success (''Onboarded '' @ str_nat (length onboarded) @ '' objects.'') w1"
    by (auto simp: post_def split: sum.splits)
  from import_loop_counts [OF l] have
    n: "length onboarded = length (job_queue w1) - length (job_queue w)" and
    le: "length (job_queue w) \<le> length (job_queue w1)" and
    ms: "messages w1 = messages w"
    by auto
  show "resp = Redirect (return_url v)" by (rule r)
  show "length (job_queue w) \<le> length (job_queue w')"
    using le w' by (simp add: messages_success_def)
  show "messages w' = messages w @
              [''Onboarded '' @ str_nat (length (job_queue w') - length (job_queue w))
                 @ '' objects.'']"
    using n ms w' by (simp add: messages_success_def)
next
  assume "filter (\<lambda>x. obj_pk x \<in> set (querydict_getlist (POST req) ''pk''))
             (model_objects (model v) w) = []"
  then show "post is_valid v req w =
              Inr (Redirect (return_url v), w\<lparr>messages := messages w @ [''Onboarded 0 objects.'']\<rparr>)"
    using assms by (simp add: post_def messages_success_def str_nat_0)
qed

lemma post_returns:
  assumes "has_permission v req w" and "is_valid (form v) (POST req) w"
    and "model v = ManufacturerImport \<longrightarrow>
           (\<exists>j. objects_get (\<lambda>j. job_name j = ''Welcome Wizard - Import Manufacturer'') (jobs w) = Inr j)"
    and "model v = DeviceTypeImport \<longrightarrow>
           (\<exists>j. objects_get (\<lambda>j. job_name j = ''Welcome Wizard - Import Device Type'') (jobs w) = Inr j)"
  shows "\<exists>w'. post is_valid v req w = Inr (Redirect (return_url v), w')"
proof (cases "model v")
  case ManufacturerImport
  with assms(3) obtain j where
    j: "objects_get (\<lambda>j. job_name j = ''Welcome Wizard - Import Manufacturer'') (jobs w) = Inr j"
    by blast
  from import_loop_manufacturer [OF ManufacturerImport j] assms(1,2) ManufacturerImport
  show ?thesis
    by (simp add: post_def filter_map_obj Let_def)
next
  case DeviceTypeImport
  with assms(4) obtain j where
    j: "objects_get (\<lambda>j. job_name j = ''Welcome Wizard - Import Device Type'') (jobs w) = Inr j"
    by blast
  from import_loop_devicetype [OF DeviceTypeImport j] assms(1,2) DeviceTypeImport
  show ?thesis
    by (simp add: post_def filter_map_obj Let_def)
qed

text \<open>
  Claim C5. For a permitted user and a valid form, whenever \<open>post\<close> returns, it returns
  the redirect to the return location and has emitted exactly one new message,
  \<open>Onboarded n objects.\<close>, where \<open>n\<close> is the number of jobs enqueued by this call. When
  no submitted identifier matches a record (an empty list included) \<open>post\<close> does return,
  with no job enqueued and the message \<open>Onboarded 0 objects.\<close>. It returns as well
  whenever the import job of the view's model is registered.
\<close>

theorem post_message_counts_enqueues:
  assumes "has_permission v req w" and "is_valid (form v) (POST req) w"
  shows "(post is_valid v req w = Inr (resp, w') \<longrightarrow>
            resp = Redirect (return_url v) \<and>
            length (job_queue w) \<le> length (job_queue w') \<and>
            messages w' = messages w @
              [''Onboarded '' @ str_nat (length (job_queue w') - length (job_queue w))
                 @ '' objects.''])
       \<and> (filter (\<lambda>x. obj_pk x \<in> set (querydict_getlist (POST req) ''pk''))
             (model_objects (model v) w) = [] \<longrightarrow>
            post is_valid v req w =
              Inr (Redirect (return_url v), w\<lparr>messages := messages w @ [''Onboarded 0 objects.'']\<rparr>))
       \<and> ((model v = ManufacturerImport \<longrightarrow>
              (\<exists>j. objects_get (\<lambda>j. job_name j = ''Welcome Wizard - Import Manufacturer'')
                     (jobs w) = Inr j)) \<and>
            (model v = DeviceTypeImport \<longrightarrow>
              (\<exists>j. objects_get (\<lambda>j. job_name j = ''Welcome Wizard - Import Device Type'')
                     (jobs w) = Inr j)) \<longrightarrow>
            (\<exists>w1. post is_valid v req w = Inr (Redirect (return_url v), w1)))"
proof (intro conjI)
  show "post is_valid v req w = Inr (resp, w') \<longrightarrow>
            resp = Redirect (return_url v) \<and>
            length (job_queue w) \<le> length (job_queue w') \<and>
            messages w' = messages w @
              [''Onboarded '' @ str_nat (length (job_queue w') - length (job_queue w))
                 @ '' objects.'']"
    by (rule post_message_effect [of v req w is_valid resp w', OF assms, THEN conjunct1])
  show "filter (\<lambda>x. obj_pk x \<in> set (querydict_getlist (POST req) ''pk''))
             (model_objects (model v) w) = [] \<longrightarrow>
            post is_valid v req w =
              Inr (Redirect (return_url v), w\<lparr>messages := messages w @ [''Onboarded 0 objects.'']\<rparr>)"
    by (rule post_message_effect [of v req w is_valid resp w', OF assms, THEN conjunct2])
  show "(model v = ManufacturerImport \<longrightarrow>
              (\<exists>j. objects_get (\<lambda>j. job_name j = ''Welcome Wizard - Import Manufacturer'')
                     (jobs w) = Inr j)) \<and>
            (model v = DeviceTypeImport \<longrightarrow>
              (\<exists>j. objects_get (\<lambda>j. job_name j = ''Welcome Wizard - Import Device Type'')
                     (jobs w) = Inr j)) \<longrightarrow>
            (\<exists>w1. post is_valid v req w = Inr (Redirect (return_url v), w1))"
    using post_returns [of v req w is_valid, OF assms] by blast
qed

theorem post_message_counts_enqueues_witness:
  "has_permission ManufacturerBulkImportView (example_request ''admin'' [''1'', ''2''])
     example_world
   \<and> always_valid (form ManufacturerBulkImportView)
        (POST (example_request ''admin'' [''1'', ''2''])) example_world
   \<and> (\<exists>w'. post always_valid ManufacturerBulkImportView (example_request ''admin'' [''1'', ''2''])
               example_world
             = Inr (Redirect ''plugins:welcome_wizard:manufacturers'', w')
           \<and> length (job_queue w') = 2
           \<and> messages w' = [''Onboarded 2 objects.''])
   \<and> has_permission ManufacturerBulkImportView (example_request ''admin'' [''99'']) example_world
   \<and> filter (\<lambda>x. obj_pk x \<in> set (querydict_getlist (POST (example_request ''admin'' [''99''])) ''pk''))
        (model_objects (model ManufacturerBulkImportView) example_world) = []
   \<and> post always_valid ManufacturerBulkImportView (example_request ''admin'' [''99''])
        example_world
      = Inr (Redirect ''plugins:welcome_wizard:manufacturers'',
             example_world\<lparr>messages := [''Onboarded 0 objects.'']\<rparr>)"
proof -
  let ?r2 = "example_request ''admin'' [''1'', ''2'']"
  let ?r0 = "example_request ''admin'' [''99'']"
  have p2: "has_permission ManufacturerBulkImportView ?r2 example_world"
    by (rule admin_has_permission_manufacturer)
  have p0: "has_permission ManufacturerBulkImportView ?r0 example_world"
    by (rule admin_has_permission_manufacturer)
  have v2: "always_valid (form ManufacturerBulkImportView) (POST ?r2) example_world"
    by (rule always_valid_holds)
  have v0: "always_valid (form ManufacturerBulkImportView) (POST ?r0) example_world"
    by (rule always_valid_holds)
  have e: "filter (\<lambda>x. obj_pk x \<in> set (querydict_getlist (POST ?r0) ''pk''))
        (model_objects (model ManufacturerBulkImportView) example_world) = []"
    by (simp add: example_post_pks model_manufacturer example_tables cisco_def juniper_def)
  let ?w2 = "example_world
            \<lparr>job_queue :=
               [\<lparr>job_model = import_manufacturer_job, job_user = ''admin'',
                 job_kwargs = [(''manufacturer_name'', ''Cisco'')]\<rparr>,
                \<lparr>job_model = import_manufacturer_job, job_user = ''admin'',
                 job_kwargs = [(''manufacturer_name'', ''Juniper'')]\<rparr>],
             messages := [''Onboarded 2 objects.'']\<rparr>"
  note a = post_message_counts_enqueues
      [of ManufacturerBulkImportView ?r2 example_world always_valid
        "Redirect ''plugins:welcome_wizard:manufacturers''" ?w2, OF p2 v2]
  note b = post_message_counts_enqueues
      [of ManufacturerBulkImportView ?r0 example_world always_valid
        "Redirect ''plugins:welcome_wizard:manufacturers''" example_world, OF p0 v0]
  have s2: "str_nat (Suc (Suc 0)) = ''2''"
    by (simp add: str_nat.simps)
  have q: "messages ?w2 = messages example_world @
      [''Onboarded '' @ str_nat (length (job_queue ?w2) - length (job_queue example_world))
         @ '' objects.'']"
    using a [THEN conjunct1, THEN mp, OF example_post_value] by blast
  have a': "\<exists>w'. post always_valid ManufacturerBulkImportView ?r2 example_world
             = Inr (Redirect ''plugins:welcome_wizard:manufacturers'', w')
           \<and> length (job_queue w') = 2
           \<and> messages w' = [''Onboarded 2 objects.'']"
  proof (intro exI conjI)
    show "post always_valid ManufacturerBulkImportView ?r2 example_world
             = Inr (Redirect ''plugins:welcome_wizard:manufacturers'', ?w2)"
      by (rule example_post_value)
    show "length (job_queue ?w2) = 2" by simp
    show "messages ?w2 = [''Onboarded 2 objects.'']"
      using q by (simp add: example_tables s2)
  qed
  have b': "post always_valid ManufacturerBulkImportView ?r0 example_world
      = Inr (Redirect ''plugins:welcome_wizard:manufacturers'',
             example_world\<lparr>messages := [''Onboarded 0 objects.'']\<rparr>)"
    using b [THEN conjunct2, THEN conjunct1, THEN mp, OF e]
    by (simp add: return_url_manufacturer example_tables)
  show ?thesis by (intro conjI p2 v2 a' p0 e b')
qed

section \<open>get: the import page\<close>

text \<open>
  Claim C8. A GET without a selection (no \<open>pk\<close> parameter, or one without values)
  redirects to the return location. The answer is the same for every database state, so
  no record is looked up and no form is rendered; \<open>get\<close> returns no state, it writes
  nothing.
\<close>

theorem get_empty_selection:
  "querydict_getlist (GET req) ''pk'' = [] \<Longrightarrow> get v req w = Inr (Redirect (return_url v))"
  by (auto simp: get_def querydict_get_def querydict_getitem_def querydict_getlist_def
      split: option.splits)

theorem get_empty_selection_witness:
  "querydict_getlist (GET \<lparr>req_user = ''admin'', GET = Map.empty, POST = Map.empty\<rparr>) ''pk'' = []
   \<and> get ManufacturerBulkImportView \<lparr>req_user = ''admin'', GET = Map.empty, POST = Map.empty\<rparr>
         example_world
       = Inr (Redirect ''plugins:welcome_wizard:manufacturers'')"
proof -
  have e: "querydict_getlist (GET \<lparr>req_user = ''admin'', GET = Map.empty, POST = Map.empty\<rparr>)
             ''pk'' = []"
    by (simp add: querydict_getlist_def)
  show ?thesis
    using e return_url_manufacturer
      get_empty_selection [OF e, of ManufacturerBulkImportView example_world]
    by simp
qed

lemma objects_get_cases:
  "objects_get P rows = Inr x \<longleftrightarrow> filter P rows = [x]"
  "objects_get P rows = Inl DoesNotExist \<longleftrightarrow> filter P rows = []"
  by (auto simp: objects_get_def split: list.splits)

lemma objects_get_member:
  "objects_get P rows = Inr x \<Longrightarrow> x \<in> set rows \<and> P x"
proof -
  assume "objects_get P rows = Inr x"
  then have "filter P rows = [x]" by (simp add: objects_get_cases)
  then have "x \<in> set (filter P rows)" by simp
  then show ?thesis by simp
qed

lemma get_primarykey:
  assumes "querydict_getlist (GET req) ''pk'' = pks" and "pks \<noteq> []" and "last pks \<noteq> []"
  shows "querydict_get (GET req) ''pk'' \<noteq> None"
    and "querydict_getitem (GET req) ''pk'' = Inr (last pks)"
  using assms
  by (auto simp: querydict_get_def querydict_getitem_def querydict_getlist_def split: option.splits)

text \<open>
  Claim C6, as amended. \<open>get\<close> reads the \<open>pk\<close> parameter as one value: Django's
  \<open>QueryDict\<close> answers with the last value given. For a GET whose \<open>pk\<close> values are
  \<open>pks\<close> (not empty, the last one not the empty string), a page that is rendered
  previews a record of the view's import model whose pk is \<open>last pks\<close>, and its form is
  built from a \<open>pk\<close> list holding that one identifier; the page is rendered when exactly
  one record has that pk, and \<open>DoesNotExist\<close> is raised when none has. With one selected
  identifier, that identifier is the whole selection.
\<close>

theorem get_previews_last_pk:
  assumes "querydict_getlist (GET req) ''pk'' = pks" and "pks \<noteq> []" and "last pks \<noteq> []"
  shows "(\<forall>resp. get v req w = Inr resp \<longrightarrow>
            (\<exists>obj. obj \<in> set (model_objects (model v) w) \<and> obj_pk obj = last pks \<and>
               resp = RenderImport ''welcome_wizard/import.html''
                        \<lparr>ctx_form = (form v, [(''pk'', [last pks])]),
                         ctx_obj = obj,
                         ctx_return_url = return_url v,
                         ctx_bulk_import_url = bulk_import_url v,
                         ctx_breadcrumb_name = breadcrumb_name v\<rparr>))
       \<and> (\<forall>obj. filter (\<lambda>x. obj_pk x = last pks) (model_objects (model v) w) = [obj] \<longrightarrow>
             get v req w =
               Inr (RenderImport ''welcome_wizard/import.html''
                      \<lparr>ctx_form = (form v, [(''pk'', [last pks])]),
                       ctx_obj = obj,
                       ctx_return_url = return_url v,
                       ctx_bulk_import_url = bulk_import_url v,
                       ctx_breadcrumb_name = breadcrumb_name v\<rparr>))
       \<and> (filter (\<lambda>x. obj_pk x = last pks) (model_objects (model v) w) = [] \<longrightarrow>
             get v req w = Inl DoesNotExist)"
proof (intro conjI allI impI)
  fix resp
  assume r: "get v req w = Inr resp"
  from r get_primarykey [OF assms] obtain obj where
    o: "objects_get (\<lambda>x. obj_pk x = last pks) (model_objects (model v) w) = Inr obj" and
    e: "resp = RenderImport ''welcome_wizard/import.html''
                        \<lparr>ctx_form = (form v, [(''pk'', [last pks])]),
                         ctx_obj = obj,
                         ctx_return_url = return_url v,
                         ctx_bulk_import_url = bulk_import_url v,
                         ctx_breadcrumb_name = breadcrumb_name v\<rparr>"
    by (auto simp: get_def split: sum.splits)
  from objects_get_member [OF o] e
  show "\<exists>obj. obj \<in> set (model_objects (model v) w) \<and> obj_pk obj = last pks \<and>
               resp = RenderImport ''welcome_wizard/import.html''
                        \<lparr>ctx_form = (form v, [(''pk'', [last pks])]),
                         ctx_obj = obj,
                         ctx_return_url = return_url v,
                         ctx_bulk_import_url = bulk_import_url v,
                         ctx_breadcrumb_name = breadcrumb_name v\<rparr>"
    by blast
next
  fix obj
  assume "filter (\<lambda>x. obj_pk x = last pks) (model_objects (model v) w) = [obj]"
  then have "objects_get (\<lambda>x. obj_pk x = last pks) (model_objects (model v) w) = Inr obj"
    by (simp add: objects_get_cases)
  with get_primarykey [OF assms]
  show "get v req w =
               Inr (RenderImport ''welcome_wizard/import.html''
                      \<lparr>ctx_form = (form v, [(''pk'', [last pks])]),
                       ctx_obj = obj,
                       ctx_return_url = return_url v,
                       ctx_bulk_import_url = bulk_import_url v,
                       ctx_breadcrumb_name = breadcrumb_name v\<rparr>)"
    by (simp add: get_def)
next
  assume "filter (\<lambda>x. obj_pk x = last pks) (model_objects (model v) w) = []"
  then have "objects_get (\<lambda>x. obj_pk x = last pks) (model_objects (model v) w) = Inl DoesNotExist"
    by (simp add: objects_get_cases)
  with get_primarykey [OF assms]
  show "get v req w = Inl DoesNotExist"
    by (simp add: get_def)
qed

lemma example_get_pks: "querydict_getlist (GET (example_request u pks)) ''pk'' = pks"
  by (simp add: querydict_getlist_def example_request_def)

lemma example_get_value:
  "get ManufacturerBulkImportView (example_request ''admin'' [''1'', ''2'']) example_world
     = Inr (RenderImport ''welcome_wizard/import.html''
              \<lparr>ctx_form = (ManufacturerBulkImportForm, [(''pk'', [''2''])]),
               ctx_obj = ManufacturerObj juniper,
               ctx_return_url = ''plugins:welcome_wizard:manufacturers'',
               ctx_bulk_import_url = ''plugins:welcome_wizard:manufacturer_import'',
               ctx_breadcrumb_name = ''Import Manufacturers''\<rparr>)"
  by (simp add: get_def querydict_get_def querydict_getitem_def example_request_def
      objects_get_def ManufacturerBulkImportView_def example_world_def cisco_def juniper_def)

text \<open>
  The claim C6 as the specification states it (the preview is the record of the first
  identifier, the form carries the full list of identifiers) fails for a GET with the two
  identifiers \<open>1\<close> and \<open>2\<close>: the previewed record is the one of \<open>2\<close>, and the form
  carries \<open>2\<close> only.
\<close>

theorem get_preview_counterexample:
  "querydict_getlist (GET (example_request ''admin'' [''1'', ''2''])) ''pk'' = [''1'', ''2'']
   \<and> objects_get (\<lambda>x. obj_pk x = ''1'') (model_objects ManufacturerImport example_world)
       = Inr (ManufacturerObj cisco)
   \<and> get ManufacturerBulkImportView (example_request ''admin'' [''1'', ''2'']) example_world
       = Inr (RenderImport ''welcome_wizard/import.html''
              \<lparr>ctx_form = (ManufacturerBulkImportForm, [(''pk'', [''2''])]),
               ctx_obj = ManufacturerObj juniper,
               ctx_return_url = ''plugins:welcome_wizard:manufacturers'',
               ctx_bulk_import_url = ''plugins:welcome_wizard:manufacturer_import'',
               ctx_breadcrumb_name = ''Import Manufacturers''\<rparr>)
   \<and> ManufacturerObj juniper \<noteq> ManufacturerObj cisco
   \<and> [(''pk'', [''2''])] \<noteq> [(''pk'', [''1'', ''2''])]"
proof (intro conjI)
  show "querydict_getlist (GET (example_request ''admin'' [''1'', ''2''])) ''pk'' = [''1'', ''2'']"
    by (rule example_get_pks)
  show "objects_get (\<lambda>x. obj_pk x = ''1'') (model_objects ManufacturerImport example_world)
       = Inr (ManufacturerObj cisco)"
    by (simp add: objects_get_def example_world_def cisco_def juniper_def)
  show "get ManufacturerBulkImportView (example_request ''admin'' [''1'', ''2'']) example_world
       = Inr (RenderImport ''welcome_wizard/import.html''
              \<lparr>ctx_form = (ManufacturerBulkImportForm, [(''pk'', [''2''])]),
               ctx_obj = ManufacturerObj juniper,
               ctx_return_url = ''plugins:welcome_wizard:manufacturers'',
               ctx_bulk_import_url = ''plugins:welcome_wizard:manufacturer_import'',
               ctx_breadcrumb_name = ''Import Manufacturers''\<rparr>)"
    by (rule example_get_value)
  show "ManufacturerObj juniper \<noteq> ManufacturerObj cisco"
    by (simp add: cisco_def juniper_def)
  show "[(''pk'', [''2''])] \<noteq> [(''pk'', [''1'', ''2''])]"
    by simp
qed

theorem get_previews_last_pk_witness:
  "querydict_getlist (GET (example_request ''admin'' [''1'', ''2''])) ''pk'' = [''1'', ''2'']
   \<and> [''1'', ''2''] \<noteq> ([] :: string list) \<and> last [''1'', ''2''] \<noteq> ''''
   \<and> filter (\<lambda>x. obj_pk x = last [''1'', ''2'']) (model_objects (model ManufacturerBulkImportView) example_world)
       = [ManufacturerObj juniper]
   \<and> get ManufacturerBulkImportView (example_request ''admin'' [''1'', ''2'']) example_world
       = Inr (RenderImport ''welcome_wizard/import.html''
              \<lparr>ctx_form = (form ManufacturerBulkImportView, [(''pk'', [last [''1'', ''2'']])]),
               ctx_obj = ManufacturerObj juniper,
               ctx_return_url = return_url ManufacturerBulkImportView,
               ctx_bulk_import_url = bulk_import_url ManufacturerBulkImportView,
               ctx_breadcrumb_name = breadcrumb_name ManufacturerBulkImportView\<rparr>)"
proof -
  have a: "querydict_getlist (GET (example_request ''admin'' [''1'', ''2''])) ''pk'' = [''1'', ''2'']"
    by (rule example_get_pks)
  have b: "[''1'', ''2''] \<noteq> ([] :: string list)" by simp
  have c: "last [''1'', ''2''] \<noteq> ''''" by simp
  have f: "filter (\<lambda>x. obj_pk x = last [''1'', ''2''])
             (model_objects (model ManufacturerBulkImportView) example_world)
       = [ManufacturerObj juniper]"
    by (simp add: ManufacturerBulkImportView_def example_world_def cisco_def juniper_def)
  note t = get_previews_last_pk [OF a b c, of ManufacturerBulkImportView example_world,
      THEN conjunct2, THEN conjunct1, THEN spec, THEN mp, OF f]
  show ?thesis by (intro conjI a b c f t)
qed

section \<open>check_sync: triggering the repository sync\<close>

lemma slug_devicetype_library: "slug devicetype_library = ''devicetype_library''"
  by (simp add: devicetype_library_def)

lemma objects_get_Inr: "objects_get P rows = Inr x \<longleftrightarrow> filter P rows = [x]"
  by (auto simp: objects_get_def split: list.splits)

lemma objects_get_DoesNotExist: "objects_get P rows = Inl DoesNotExist \<longleftrightarrow> filter P rows = []"
  by (auto simp: objects_get_def split: list.splits)

lemma objects_get_Multiple:
  "objects_get P rows = Inl e \<Longrightarrow> e \<noteq> DoesNotExist \<Longrightarrow> 2 \<le> length (filter P rows)"
  by (auto simp: objects_get_def split: list.splits)

lemma check_sync_idle:
  "\<not> (plugins_config w ''enable_devicetype-library'' = Some True \<and> \<not> queryset_exists v w) \<Longrightarrow>
     check_sync v req w = Inr w"
  by (auto simp: check_sync_def)

lemma check_sync_existing:
  assumes "plugins_config w ''enable_devicetype-library'' = Some True"
    and "\<not> queryset_exists v w"
    and "filter (\<lambda>r. slug r = ''devicetype_library'') (git_repositories w) = [repo]"
  shows "check_sync v req w = Inr (w\<lparr>sync_queue := sync_queue w @ [(repo, req_user req)]\<rparr>)"
  using assms
  by (simp add: check_sync_def objects_get_Inr [THEN iffD2]
      enqueue_pull_git_repository_and_refresh_data_def)

lemma check_sync_missing:
  assumes "plugins_config w ''enable_devicetype-library'' = Some True"
    and "\<not> queryset_exists v w"
    and "filter (\<lambda>r. slug r = ''devicetype_library'') (git_repositories w) = []"
  shows "check_sync v req w =
     Inr (w\<lparr>git_repositories := git_repositories w @ [devicetype_library],
            sync_queue := sync_queue w @ [(devicetype_library, req_user req)]\<rparr>)"
  using assms
  by (simp add: check_sync_def objects_get_DoesNotExist [THEN iffD2]
      enqueue_pull_git_repository_and_refresh_data_def git_repository_save_def)

lemma queryset_exists_cong:
  "manufacturer_imports w' = manufacturer_imports w \<Longrightarrow>
   devicetype_imports w' = devicetype_imports w \<Longrightarrow>
   queryset_exists v w' = queryset_exists v w"
  by (cases "lv_queryset v") (simp_all add: queryset_exists_def)

lemma check_sync_triggered:
  assumes f: "plugins_config w ''enable_devicetype-library'' = Some True"
    and e: "\<not> queryset_exists v w"
    and r: "check_sync v req w = Inr w'"
  shows "\<exists>repo. sync_queue w' = sync_queue w @ [(repo, req_user req)]
           \<and> filter (\<lambda>r. slug r = ''devicetype_library'') (git_repositories w') = [repo]
           \<and> plugins_config w' = plugins_config w
           \<and> manufacturer_imports w' = manufacturer_imports w
           \<and> devicetype_imports w' = devicetype_imports w"
proof (cases "objects_get (\<lambda>r. slug r = ''devicetype_library'') (git_repositories w)")
  case (Inr repo)
  then have "filter (\<lambda>r. slug r = ''devicetype_library'') (git_repositories w) = [repo]"
    by (simp add: objects_get_Inr)
  from check_sync_existing [OF f e this, of req] r this show ?thesis by auto
next
  case (Inl err)
  with f e r have "err = DoesNotExist"
    by (cases err) (simp_all add: check_sync_def)
  with Inl have "filter (\<lambda>r. slug r = ''devicetype_library'') (git_repositories w) = []"
    by (simp add: objects_get_DoesNotExist)
  from check_sync_missing [OF f e this, of req] r this show ?thesis
    by (auto simp: slug_devicetype_library)
qed

lemma check_sync_returns:
  assumes f: "plugins_config w ''enable_devicetype-library'' = Some True"
    and e: "\<not> queryset_exists v w"
    and u: "length (filter (\<lambda>r. slug r = ''devicetype_library'') (git_repositories w)) \<le> 1"
  shows "\<exists>w'. check_sync v req w = Inr w'"
proof (cases "filter (\<lambda>r. slug r = ''devicetype_library'') (git_repositories w)")
  case Nil
  from check_sync_missing [OF f e this] show ?thesis by blast
next
  case (Cons x xs)
  with u have "filter (\<lambda>r. slug r = ''devicetype_library'') (git_repositories w) = [x]"
    by simp
  from check_sync_existing [OF f e this] show ?thesis by blast
qed

lemma empty_world_flag: "plugins_config empty_world ''enable_devicetype-library'' = Some True"
  by (simp add: empty_world_def example_world_def)

lemma example_world_flag: "plugins_config example_world ''enable_devicetype-library'' = Some True"
  by (simp add: example_world_def)

lemma empty_world_no_rows:
  "\<not> queryset_exists ManufacturerListView empty_world"
  "\<not> queryset_exists DeviceTypeListView empty_world"
  by (simp_all add: queryset_exists_def ManufacturerListView_def DeviceTypeListView_def
      empty_world_def)

lemma example_world_rows: "queryset_exists ManufacturerListView example_world"
  by (simp add: queryset_exists_def ManufacturerListView_def example_world_def)

lemma empty_world_repositories:
  "git_repositories empty_world = []" "sync_queue empty_world = []"
  by (simp_all add: empty_world_def example_world_def)

text \<open>
  Claim C9. On a GET of a wizard list view (\<open>list_view_get\<close>, the \<open>get\<close> of both
  \<open>ManufacturerListView\<close> and \<open>DeviceTypeListView\<close>): when the flag
  \<open>enable_devicetype-library\<close> is not set or the view's table has rows, the page is
  rendered and the state is unchanged, so no sync is triggered; when the flag is set and
  the table is empty, a render that returns has enqueued exactly one sync, for the
  requesting user, and the next render from the resulting state (the table still empty)
  returns and enqueues one more: nothing guards against re-triggering. Such a render
  returns whenever at most one repository has the slug \<open>devicetype_library\<close>.
\<close>

theorem list_view_get_sync:
  "(\<not> (plugins_config w ''enable_devicetype-library'' = Some True \<and> \<not> queryset_exists v w) \<longrightarrow>
      list_view_get v req w = Inr (RenderList (lv_template_name v), w))
   \<and> (plugins_config w ''enable_devicetype-library'' = Some True \<and> \<not> queryset_exists v w \<longrightarrow>
        (\<forall>resp w'. list_view_get v req w = Inr (resp, w') \<longrightarrow>
           (\<exists>repo. sync_queue w' = sync_queue w @ [(repo, req_user req)]) \<and>
           (\<exists>resp2 w'' repo2. list_view_get v req2 w' = Inr (resp2, w'') \<and>
              sync_queue w'' = sync_queue w' @ [(repo2, req_user req2)]))
        \<and> (length (filter (\<lambda>r. slug r = ''devicetype_library'') (git_repositories w)) \<le> 1 \<longrightarrow>
             (\<exists>w'. list_view_get v req w = Inr (RenderList (lv_template_name v), w'))))"
proof (intro conjI impI allI)
  assume "\<not> (plugins_config w ''enable_devicetype-library'' = Some True \<and> \<not> queryset_exists v w)"
  from check_sync_idle [OF this]
  show "list_view_get v req w = Inr (RenderList (lv_template_name v), w)"
    by (simp add: list_view_get_def)
next
  fix resp w'
  assume c: "plugins_config w ''enable_devicetype-library'' = Some True \<and> \<not> queryset_exists v w"
    and g: "list_view_get v req w = Inr (resp, w')"
  from g have r: "check_sync v req w = Inr w'"
    by (auto simp: list_view_get_def split: sum.splits)
  from check_sync_triggered [OF c [THEN conjunct1] c [THEN conjunct2] r] obtain repo where
    q: "sync_queue w' = sync_queue w @ [(repo, req_user req)]" and
    one: "filter (\<lambda>r. slug r = ''devicetype_library'') (git_repositories w') = [repo]" and
    same: "plugins_config w' = plugins_config w" "manufacturer_imports w' = manufacturer_imports w"
      "devicetype_imports w' = devicetype_imports w"
    by blast
  from q show "\<exists>repo. sync_queue w' = sync_queue w @ [(repo, req_user req)]" by blast
  have f': "plugins_config w' ''enable_devicetype-library'' = Some True"
    using c same by simp
  have e': "\<not> queryset_exists v w'"
    using c queryset_exists_cong [OF same(2) same(3)] by simp
  from check_sync_existing [OF f' e' one, of req2]
  show "\<exists>resp2 w'' repo2. list_view_get v req2 w' = Inr (resp2, w'') \<and>
              sync_queue w'' = sync_queue w' @ [(repo2, req_user req2)]"
    by (simp add: list_view_get_def)
next
  assume c: "plugins_config w ''enable_devicetype-library'' = Some True \<and> \<not> queryset_exists v w"
    and u: "length (filter (\<lambda>r. slug r = ''devicetype_library'') (git_repositories w)) \<le> 1"
  from check_sync_returns [OF c [THEN conjunct1] c [THEN conjunct2] u, of req]
  show "\<exists>w'. list_view_get v req w = Inr (RenderList (lv_template_name v), w')"
    by (auto simp: list_view_get_def)
qed

theorem list_view_get_sync_witness:
  "list_view_get ManufacturerListView (example_request ''admin'' []) example_world
     = Inr (RenderList ''welcome_wizard/manufacturer.html'', example_world)
   \<and> plugins_config empty_world ''enable_devicetype-library'' = Some True
   \<and> \<not> queryset_exists DeviceTypeListView empty_world
   \<and> (\<exists>w'. list_view_get DeviceTypeListView (example_request ''admin'' []) empty_world
               = Inr (RenderList ''welcome_wizard/devicetype.html'', w')
            \<and> (\<exists>repo. sync_queue w' = [(repo, ''admin'')])
            \<and> (\<exists>resp2 w'' repo2.
                  list_view_get DeviceTypeListView (example_request ''guest'' []) w'
                    = Inr (resp2, w'')
                  \<and> sync_queue w'' = sync_queue w' @ [(repo2, ''guest'')]))"
proof -
  let ?r = "example_request ''admin'' []"
  let ?g = "example_request ''guest'' []"
  have idle: "\<not> (plugins_config example_world ''enable_devicetype-library'' = Some True
                  \<and> \<not> queryset_exists ManufacturerListView example_world)"
    using example_world_rows by simp
  have a: "list_view_get ManufacturerListView ?r example_world
     = Inr (RenderList ''welcome_wizard/manufacturer.html'', example_world)"
    using list_view_get_sync [of example_world ManufacturerListView ?r ?g,
        THEN conjunct1, THEN mp, OF idle]
    by (simp add: ManufacturerListView_def)
  have c: "plugins_config empty_world ''enable_devicetype-library'' = Some True
             \<and> \<not> queryset_exists DeviceTypeListView empty_world"
    using empty_world_flag empty_world_no_rows by simp
  note t = list_view_get_sync [of empty_world DeviceTypeListView ?r ?g,
      THEN conjunct2, THEN mp, OF c]
  have u: "length (filter (\<lambda>r. slug r = ''devicetype_library'') (git_repositories empty_world)) \<le> 1"
    by (simp add: empty_world_repositories)
  from t [THEN conjunct2, THEN mp, OF u] obtain w' where
    w': "list_view_get DeviceTypeListView ?r empty_world
           = Inr (RenderList (lv_template_name DeviceTypeListView), w')"
    by blast
  from t [THEN conjunct1, THEN spec, THEN spec, THEN mp, OF w'] have
    s: "(\<exists>repo. sync_queue w' = sync_queue empty_world @ [(repo, req_user ?r)]) \<and>
        (\<exists>resp2 w'' repo2. list_view_get DeviceTypeListView ?g w' = Inr (resp2, w'') \<and>
              sync_queue w'' = sync_queue w' @ [(repo2, req_user ?g)])" .
  from s obtain repo where
    q1: "sync_queue w' = sync_queue empty_world @ [(repo, req_user ?r)]"
    by blast
  from s obtain resp2 w'' repo2 where
    q2: "list_view_get DeviceTypeListView ?g w' = Inr (resp2, w'')" and
    q3: "sync_queue w'' = sync_queue w' @ [(repo2, req_user ?g)]"
    by blast
  have tn: "lv_template_name DeviceTypeListView = ''welcome_wizard/devicetype.html''"
    by (simp add: DeviceTypeListView_def)
  have b1: "list_view_get DeviceTypeListView ?r empty_world
               = Inr (RenderList ''welcome_wizard/devicetype.html'', w')"
    using w' by (simp only: tn)
  have b2: "sync_queue w' = [(repo, ''admin'')]"
    using q1 by (simp only: empty_world_repositories example_req_user append_Nil)
  have b3: "sync_queue w'' = sync_queue w' @ [(repo2, ''guest'')]"
    using q3 by (simp only: example_req_user)
  have b: "\<exists>w'. list_view_get DeviceTypeListView ?r empty_world
               = Inr (RenderList ''welcome_wizard/devicetype.html'', w')
            \<and> (\<exists>repo. sync_queue w' = [(repo, ''admin'')])
            \<and> (\<exists>resp2 w'' repo2.
                  list_view_get DeviceTypeListView ?g w' = Inr (resp2, w'')
                  \<and> sync_queue w'' = sync_queue w' @ [(repo2, ''guest'')])"
    using b1 b2 q2 b3 by blast
  show ?thesis
    by (intro conjI a c [THEN conjunct1] c [THEN conjunct2] b)
qed

text \<open>
  Claim C10. When \<open>check_sync\<close> triggers (flag set, table empty) and no repository has
  the slug \<open>devicetype_library\<close>, it appends to the repository table the record with
  name \<open>Devicetype-library\<close>, that slug, the remote URL of the community library,
  provided contents \<open>welcome_wizard.import_wizard\<close> and branch \<open>master\<close>, and
  enqueues the sync with this record and the requesting user; when one repository has the
  slug, the sync is enqueued with that one and the table is left as it is.
\<close>

theorem check_sync_creates_repository:
  assumes "plugins_config w ''enable_devicetype-library'' = Some True"
    and "\<not> queryset_exists v w"
  shows "(filter (\<lambda>r. slug r = ''devicetype_library'') (git_repositories w) = [] \<longrightarrow>
            check_sync v req w =
              Inr (w\<lparr>git_repositories := git_repositories w @
                       [\<lparr>repo_name = ''Devicetype-library'',
                         slug = ''devicetype_library'',
                         remote_url = ''https://github.com/netbox-community/devicetype-library.git'',
                         provided_contents = [''welcome_wizard.import_wizard''],
                         branch = ''master''\<rparr>],
                     sync_queue := sync_queue w @
                       [(\<lparr>repo_name = ''Devicetype-library'',
                          slug = ''devicetype_library'',
                          remote_url = ''https://github.com/netbox-community/devicetype-library.git'',
                          provided_contents = [''welcome_wizard.import_wizard''],
                          branch = ''master''\<rparr>, req_user req)]\<rparr>))
       \<and> (\<forall>repo. filter (\<lambda>r. slug r = ''devicetype_library'') (git_repositories w) = [repo] \<longrightarrow>
             check_sync v req w = Inr (w\<lparr>sync_queue := sync_queue w @ [(repo, req_user req)]\<rparr>))"
proof (intro conjI impI allI)
  assume "filter (\<lambda>r. slug r = ''devicetype_library'') (git_repositories w) = []"
  from check_sync_missing [OF assms this, of req]
  show "check_sync v req w =
              Inr (w\<lparr>git_repositories := git_repositories w @
                       [\<lparr>repo_name = ''Devicetype-library'',
                         slug = ''devicetype_library'',
                         remote_url = ''https://github.com/netbox-community/devicetype-library.git'',
                         provided_contents = [''welcome_wizard.import_wizard''],
                         branch = ''master''\<rparr>],
                     sync_queue := sync_queue w @
                       [(\<lparr>repo_name = ''Devicetype-library'',
                          slug = ''devicetype_library'',
                          remote_url = ''https://github.com/netbox-community/devicetype-library.git'',
                          provided_contents = [''welcome_wizard.import_wizard''],
                          branch = ''master''\<rparr>, req_user req)]\<rparr>)"
    by (simp add: devicetype_library_def)
next
  fix repo
  assume "filter (\<lambda>r. slug r = ''devicetype_library'') (git_repositories w) = [repo]"
  from check_sync_existing [OF assms this]
  show "check_sync v req w = Inr (w\<lparr>sync_queue := sync_queue w @ [(repo, req_user req)]\<rparr>)" .
qed

theorem check_sync_creates_repository_witness:
  "plugins_config empty_world ''enable_devicetype-library'' = Some True
   \<and> \<not> queryset_exists ManufacturerListView empty_world
   \<and> filter (\<lambda>r. slug r = ''devicetype_library'') (git_repositories empty_world) = []
   \<and> check_sync ManufacturerListView (example_request ''admin'' []) empty_world =
       Inr (empty_world
            \<lparr>git_repositories :=
               [\<lparr>repo_name = ''Devicetype-library'',
                 slug = ''devicetype_library'',
                 remote_url = ''https://github.com/netbox-community/devicetype-library.git'',
                 provided_contents = [''welcome_wizard.import_wizard''],
                 branch = ''master''\<rparr>],
             sync_queue :=
               [(\<lparr>repo_name = ''Devicetype-library'',
                  slug = ''devicetype_library'',
                  remote_url = ''https://github.com/netbox-community/devicetype-library.git'',
                  provided_contents = [''welcome_wizard.import_wizard''],
                  branch = ''master''\<rparr>, ''admin'')]\<rparr>)"
proof -
  have n: "filter (\<lambda>r. slug r = ''devicetype_library'') (git_repositories empty_world) = []"
    by (simp add: empty_world_repositories)
  have r: "check_sync ManufacturerListView (example_request ''admin'' []) empty_world =
       Inr (empty_world
            \<lparr>git_repositories :=
               [\<lparr>repo_name = ''Devicetype-library'',
                 slug = ''devicetype_library'',
                 remote_url = ''https://github.com/netbox-community/devicetype-library.git'',
                 provided_contents = [''welcome_wizard.import_wizard''],
                 branch = ''master''\<rparr>],
             sync_queue :=
               [(\<lparr>repo_name = ''Devicetype-library'',
                  slug = ''devicetype_library'',
                  remote_url = ''https://github.com/netbox-community/devicetype-library.git'',
                  provided_contents = [''welcome_wizard.import_wizard''],
                  branch = ''master''\<rparr>, ''admin'')]\<rparr>)"
    using check_sync_creates_repository [OF empty_world_flag empty_world_no_rows(1),
        of "example_request ''admin'' []", THEN conjunct1, THEN mp, OF n]
    by (simp add: empty_world_repositories example_request_def)
  show ?thesis
    by (intro conjI empty_world_flag empty_world_no_rows(1) n r)
qed

section \<open>check_data: the dashboard table\<close>

lemma filter_update:
  "filter (\<lambda>m. merlin_name m = n) (merlin_filter_update nm c ms) =
     (if n = nm then map (\<lambda>m. m\<lparr>completed := c\<rparr>) (filter (\<lambda>m. merlin_name m = n) ms)
      else filter (\<lambda>m. merlin_name m = n) ms)"
  by (induction ms) (auto simp: merlin_filter_update_def)

lemma length_update [simp]: "length (merlin_filter_update nm c ms) = length ms"
  by (simp add: merlin_filter_update_def)

lemma fields_update [simp]:
  "map fields_but_completed (merlin_filter_update nm c ms) = map fields_but_completed ms"
  by (induction ms) (auto simp: merlin_filter_update_def fields_but_completed_def)

lemma update_fixed:
  "\<forall>m\<in>set ms. merlin_name m = nm \<longrightarrow> completed m = c \<Longrightarrow> merlin_filter_update nm c ms = ms"
  by (induction ms) (auto simp: merlin_filter_update_def)

text \<open>The three outcomes of one turn of the loop, by the number of rows of that name.\<close>

lemma check_item_none:
  assumes "filter (\<lambda>m. merlin_name m = fst (snd d)) ms = []"
  shows "check_item ex d ms =
           Inr (merlin_filter_update (fst (snd d)) (ex (fst d)) ms @ [new_merlin ex d])"
  using assms
  by (cases d)
     (simp add: objects_get_def filter_update new_merlin_def merlin_create_def Let_def)

lemma check_item_one:
  assumes "filter (\<lambda>m. merlin_name m = fst (snd d)) ms = [x]"
  shows "check_item ex d ms = Inr (merlin_filter_update (fst (snd d)) (ex (fst d)) ms)"
  using assms
  by (cases d) (simp add: objects_get_def filter_update Let_def)

lemma check_item_many:
  assumes "filter (\<lambda>m. merlin_name m = fst (snd d)) ms = x # y # zs"
  shows "check_item ex d ms = Inl MultipleObjectsReturned"
  using assms
  by (cases d) (simp add: objects_get_def filter_update Let_def)

lemma check_item_cases:
  assumes "check_item ex d ms = Inr ms'"
  shows "(filter (\<lambda>m. merlin_name m = fst (snd d)) ms = [] \<and>
            ms' = merlin_filter_update (fst (snd d)) (ex (fst d)) ms @ [new_merlin ex d])
       \<or> (\<exists>x. filter (\<lambda>m. merlin_name m = fst (snd d)) ms = [x] \<and>
            ms' = merlin_filter_update (fst (snd d)) (ex (fst d)) ms)"
proof (cases "filter (\<lambda>m. merlin_name m = fst (snd d)) ms")
  case Nil
  from check_item_none [OF Nil, of ex] assms Nil show ?thesis by simp
next
  case (Cons x xs)
  show ?thesis
  proof (cases xs)
    case Nil
    with Cons have one: "filter (\<lambda>m. merlin_name m = fst (snd d)) ms = [x]" by simp
    from check_item_one [OF one, of ex] assms one show ?thesis by simp
  next
    case (Cons y zs)
    with \<open>filter (\<lambda>m. merlin_name m = fst (snd d)) ms = x # xs\<close>
    have "filter (\<lambda>m. merlin_name m = fst (snd d)) ms = x # y # zs" by simp
    from check_item_many [OF this, of ex] assms show ?thesis by simp
  qed
qed

lemma new_merlin_name [simp]: "merlin_name (new_merlin ex d) = fst (snd d)"
  by (cases d) (simp add: new_merlin_def)

lemma new_merlin_completed [simp]: "completed (new_merlin ex d) = ex (fst d)"
  by (cases d) (simp add: new_merlin_def)

lemma check_item_filter_other:
  assumes "check_item ex d ms = Inr ms'" and "n \<noteq> fst (snd d)"
  shows "filter (\<lambda>m. merlin_name m = n) ms' = filter (\<lambda>m. merlin_name m = n) ms"
  using check_item_cases [OF assms(1)] assms(2)
  by (auto simp: filter_update)

lemma check_item_filter_same:
  assumes "check_item ex d ms = Inr ms'"
  shows "\<exists>m. filter (\<lambda>m. merlin_name m = fst (snd d)) ms' = [m] \<and> completed m = ex (fst d)
           \<and> (filter (\<lambda>m. merlin_name m = fst (snd d)) ms = [] \<longrightarrow> m = new_merlin ex d)
           \<and> (\<forall>x. filter (\<lambda>m. merlin_name m = fst (snd d)) ms = [x] \<longrightarrow>
                  m = x\<lparr>completed := ex (fst d)\<rparr>)"
  using check_item_cases [OF assms]
  by (auto simp: filter_update)

lemma check_item_fields:
  assumes "check_item ex d ms = Inr ms'"
  shows "length ms \<le> length ms' \<and>
         map fields_but_completed (take (length ms) ms') = map fields_but_completed ms"
  using check_item_cases [OF assms]
  by auto

lemma check_loop_Cons:
  "check_loop ex (d # ds) ms = Inr ms' \<longleftrightarrow>
     (\<exists>ms1. check_item ex d ms = Inr ms1 \<and> check_loop ex ds ms1 = Inr ms')"
  by (auto split: sum.splits)

lemma check_loop_filter_other:
  "check_loop ex ds ms = Inr ms' \<Longrightarrow> n \<notin> set (map (\<lambda>d. fst (snd d)) ds) \<Longrightarrow>
     filter (\<lambda>m. merlin_name m = n) ms' = filter (\<lambda>m. merlin_name m = n) ms"
proof (induction ds arbitrary: ms)
  case Nil
  then show ?case by simp
next
  case (Cons d ds)
  from Cons.prems(1) [unfolded check_loop_Cons] obtain ms1 where
    i: "check_item ex d ms = Inr ms1" and l: "check_loop ex ds ms1 = Inr ms'"
    by blast
  from Cons.prems(2) have n: "n \<noteq> fst (snd d)" "n \<notin> set (map (\<lambda>d. fst (snd d)) ds)"
    by auto
  from Cons.IH [OF l n(2)] check_item_filter_other [OF i n(1)] show ?case by simp
qed

lemma check_loop_category:
  "check_loop ex ds ms = Inr ms' \<Longrightarrow> distinct (map (\<lambda>d. fst (snd d)) ds) \<Longrightarrow> d \<in> set ds \<Longrightarrow>
     \<exists>m. filter (\<lambda>m. merlin_name m = fst (snd d)) ms' = [m] \<and> completed m = ex (fst d)
        \<and> (filter (\<lambda>m. merlin_name m = fst (snd d)) ms = [] \<longrightarrow> m = new_merlin ex d)
        \<and> (\<forall>x. filter (\<lambda>m. merlin_name m = fst (snd d)) ms = [x] \<longrightarrow>
               m = x\<lparr>completed := ex (fst d)\<rparr>)"
proof (induction ds arbitrary: ms)
  case Nil
  then show ?case by simp
next
  case (Cons e ds)
  from Cons.prems(1) [unfolded check_loop_Cons] obtain ms1 where
    i: "check_item ex e ms = Inr ms1" and l: "check_loop ex ds ms1 = Inr ms'"
    by blast
  from Cons.prems(2) have dist: "fst (snd e) \<notin> set (map (\<lambda>d. fst (snd d)) ds)"
    "distinct (map (\<lambda>d. fst (snd d)) ds)"
    by simp_all
  show ?case
  proof (cases "d = e")
    case True
    from check_loop_filter_other [OF l dist(1)]
    have "filter (\<lambda>m. merlin_name m = fst (snd e)) ms' = filter (\<lambda>m. merlin_name m = fst (snd e)) ms1" .
    with check_item_filter_same [OF i] True show ?thesis by simp
  next
    case False
    with Cons.prems(3) have d: "d \<in> set ds" by simp
    then have "fst (snd d) \<in> set (map (\<lambda>d. fst (snd d)) ds)" by simp
    with dist(1) have "fst (snd d) \<noteq> fst (snd e)" by metis
    from check_item_filter_other [OF i this]
    have "filter (\<lambda>m. merlin_name m = fst (snd d)) ms1 = filter (\<lambda>m. merlin_name m = fst (snd d)) ms" .
    with Cons.IH [OF l dist(2) d] show ?thesis by simp
  qed
qed

lemma check_loop_fields:
  "check_loop ex ds ms = Inr ms' \<Longrightarrow>
     length ms \<le> length ms' \<and>
     map fields_but_completed (take (length ms) ms') = map fields_but_completed ms"
proof (induction ds arbitrary: ms)
  case Nil
  then show ?case by simp
next
  case (Cons d ds)
  from Cons.prems [unfolded check_loop_Cons] obtain ms1 where
    i: "check_item ex d ms = Inr ms1" and l: "check_loop ex ds ms1 = Inr ms'"
    by blast
  from check_item_fields [OF i] have
    a: "length ms \<le> length ms1" and
    b: "map fields_but_completed (take (length ms) ms1) = map fields_but_completed ms"
    by simp_all
  from Cons.IH [OF l] have
    c: "length ms1 \<le> length ms'" and
    e: "map fields_but_completed (take (length ms1) ms') = map fields_but_completed ms1"
    by simp_all
  have "take (length ms) ms' = take (length ms) (take (length ms1) ms')"
    using a by (simp add: min_def)
  then have "map fields_but_completed (take (length ms) ms')
      = take (length ms) (map fields_but_completed (take (length ms1) ms'))"
    by (simp add: take_map)
  also have "\<dots> = take (length ms) (map fields_but_completed ms1)"
    using e by simp
  also have "\<dots> = map fields_but_completed ms"
    using b by (simp add: take_map)
  finally show ?case using a c by simp
qed

text \<open>The loop returns when no category name occurs on two rows.\<close>

lemma check_item_returns:
  assumes "length (filter (\<lambda>m. merlin_name m = fst (snd d)) ms) \<le> 1"
  shows "\<exists>ms'. check_item ex d ms = Inr ms'"
proof (cases "filter (\<lambda>m. merlin_name m = fst (snd d)) ms")
  case Nil
  from check_item_none [OF this] show ?thesis by blast
next
  case (Cons x xs)
  with assms have "filter (\<lambda>m. merlin_name m = fst (snd d)) ms = [x]" by simp
  from check_item_one [OF this] show ?thesis by blast
qed

lemma check_item_count:
  assumes "check_item ex d ms = Inr ms'"
    and "length (filter (\<lambda>m. merlin_name m = n) ms) \<le> 1"
  shows "length (filter (\<lambda>m. merlin_name m = n) ms') \<le> 1"
proof (cases "n = fst (snd d)")
  case True
  with check_item_filter_same [OF assms(1)] show ?thesis by auto
next
  case False
  from check_item_filter_other [OF assms(1) False] assms(2) show ?thesis by simp
qed

lemma check_loop_returns:
  "\<forall>d\<in>set ds. length (filter (\<lambda>m. merlin_name m = fst (snd d)) ms) \<le> 1 \<Longrightarrow>
     \<exists>ms'. check_loop ex ds ms = Inr ms'"
proof (induction ds arbitrary: ms)
  case Nil
  then show ?case by simp
next
  case (Cons d ds)
  from Cons.prems have "length (filter (\<lambda>m. merlin_name m = fst (snd d)) ms) \<le> 1" by simp
  from check_item_returns [OF this] obtain ms1 where i: "check_item ex d ms = Inr ms1"
    by blast
  have "\<forall>e\<in>set ds. length (filter (\<lambda>m. merlin_name m = fst (snd e)) ms1) \<le> 1"
    using Cons.prems check_item_count [OF i] by simp
  from Cons.IH [OF this] i show ?case by simp
qed

text \<open>A table that holds, for each category, exactly one row with the current answer is
  a fixed point of the loop.\<close>

lemma check_item_fixed:
  assumes "filter (\<lambda>m. merlin_name m = fst (snd d)) ms = [x]" and "completed x = ex (fst d)"
  shows "check_item ex d ms = Inr ms"
proof -
  have "\<forall>m\<in>set ms. merlin_name m = fst (snd d) \<longrightarrow> completed m = ex (fst d)"
  proof (intro ballI impI)
    fix m assume "m \<in> set ms" and "merlin_name m = fst (snd d)"
    then have "m \<in> set (filter (\<lambda>m. merlin_name m = fst (snd d)) ms)" by simp
    with assms show "completed m = ex (fst d)" by simp
  qed
  from update_fixed [OF this] check_item_one [OF assms(1), of ex] show ?thesis by simp
qed

lemma check_loop_fixed:
  "\<forall>d\<in>set ds. \<exists>x. filter (\<lambda>m. merlin_name m = fst (snd d)) ms = [x] \<and> completed x = ex (fst d)
     \<Longrightarrow> check_loop ex ds ms = Inr ms"
proof (induction ds)
  case Nil
  then show ?case by simp
next
  case (Cons d ds)
  from Cons.prems obtain x where
    x: "filter (\<lambda>m. merlin_name m = fst (snd d)) ms = [x]" "completed x = ex (fst d)"
    by auto
  from check_item_fixed [of d ms x ex, OF x] Cons.IH Cons.prems show ?case by simp
qed

text \<open>Once every category has its row, a run creates nothing: it returns a table of the
  same rows, up to \<open>completed\<close>.\<close>

lemma check_loop_settled:
  "\<forall>d\<in>set ds. length (filter (\<lambda>m. merlin_name m = fst (snd d)) ms) = 1 \<Longrightarrow>
     \<exists>ms'. check_loop ex ds ms = Inr ms' \<and>
           map fields_but_completed ms' = map fields_but_completed ms"
proof (induction ds arbitrary: ms)
  case Nil
  then show ?case by simp
next
  case (Cons d ds)
  from Cons.prems have "length (filter (\<lambda>m. merlin_name m = fst (snd d)) ms) = 1" by simp
  then obtain x where one: "filter (\<lambda>m. merlin_name m = fst (snd d)) ms = [x]"
    by (cases "filter (\<lambda>m. merlin_name m = fst (snd d)) ms") auto
  let ?ms1 = "merlin_filter_update (fst (snd d)) (ex (fst d)) ms"
  have i: "check_item ex d ms = Inr ?ms1"
    by (rule check_item_one [OF one])
  have "\<forall>e\<in>set ds. length (filter (\<lambda>m. merlin_name m = fst (snd e)) ?ms1) = 1"
    using Cons.prems by (simp add: filter_update)
  from Cons.IH [OF this] obtain ms' where
    "check_loop ex ds ?ms1 = Inr ms'"
    "map fields_but_completed ms' = map fields_but_completed ?ms1"
    by blast
  with i show ?case by simp
qed

lemma visited_check_data:
  "check_data visited_world = Inr (visited_world\<lparr>merlins := visited_dashboard\<rparr>)"
  by (simp add: check_data_def descriptors_def objects_get_def merlin_filter_update_def
      merlin_create_def visited_world_def example_world_def visited_dashboard_def
      stale_manufacturers_row_def)


lemma descriptors_names:
  "distinct (map (\<lambda>d. fst (snd d)) descriptors)" "length descriptors = 7"
  by (simp_all add: descriptors_def)

lemma check_data_loop:
  "check_data w = Inr w' \<longleftrightarrow>
     (\<exists>ms. check_loop (inventory_exists w) descriptors (merlins w) = Inr ms \<and>
           w' = w\<lparr>merlins := ms\<rparr>)"
  by (auto simp: check_data_def split: sum.splits)

lemma check_data_returns:
  assumes "\<forall>d\<in>set descriptors. length (filter (\<lambda>m. merlin_name m = fst (snd d)) (merlins w)) \<le> 1"
  shows "\<exists>w'. check_data w = Inr w'"
  using check_loop_returns [OF assms, of "inventory_exists w"]
  by (auto simp: check_data_def)

lemma visited_world_fields:
  "merlins visited_world = [stale_manufacturers_row]"
  "inventory_exists (visited_world\<lparr>merlins := ms\<rparr>) Location = False"
  "inventory_exists (visited_world\<lparr>merlins := ms\<rparr>) Manufacturer = True"
  "inventory_exists visited_world Location = False"
  "inventory_exists visited_world Manufacturer = True"
  by (simp_all add: visited_world_def example_world_def)

lemma check_data_rows:
  assumes "check_data w = Inr w'"
  shows "\<forall>(nautobot_object, var_name, list_url, new_url, wizard_url) \<in> set descriptors.
           \<exists>m. filter (\<lambda>r. merlin_name r = var_name) (merlins w') = [m]
              \<and> completed m = inventory_exists w' nautobot_object
              \<and> (filter (\<lambda>r. merlin_name r = var_name) (merlins w) = [] \<longrightarrow>
                    m = \<lparr>merlin_name = var_name,
                         completed = inventory_exists w' nautobot_object,
                         ignored = False,
                         nautobot_model = nautobot_object,
                         nautobot_add_link = new_url,
                         merlin_link = wizard_url,
                         nautobot_list_link = list_url\<rparr>)"
proof -
  from assms obtain ms where
    l: "check_loop (inventory_exists w) descriptors (merlins w) = Inr ms" and
    w': "w' = w\<lparr>merlins := ms\<rparr>"
    by (auto simp: check_data_loop)
  show ?thesis
  proof (intro ballI)
    fix d assume d: "d \<in> set descriptors"
    obtain nautobot_object var_name list_url new_url wizard_url where
      e: "d = (nautobot_object, var_name, list_url, new_url, wizard_url)"
      by (cases d)
    from check_loop_category [OF l descriptors_names(1) d] obtain m where
      "filter (\<lambda>m. merlin_name m = fst (snd d)) ms = [m]"
      "completed m = inventory_exists w (fst d)"
      "filter (\<lambda>m. merlin_name m = fst (snd d)) (merlins w) = [] \<longrightarrow>
         m = new_merlin (inventory_exists w) d"
      by blast
    then show "case d of (nautobot_object, var_name, list_url, new_url, wizard_url) \<Rightarrow>
           \<exists>m. filter (\<lambda>r. merlin_name r = var_name) (merlins w') = [m]
              \<and> completed m = inventory_exists w' nautobot_object
              \<and> (filter (\<lambda>r. merlin_name r = var_name) (merlins w) = [] \<longrightarrow>
                    m = \<lparr>merlin_name = var_name,
                         completed = inventory_exists w' nautobot_object,
                         ignored = False,
                         nautobot_model = nautobot_object,
                         nautobot_add_link = new_url,
                         merlin_link = wizard_url,
                         nautobot_list_link = list_url\<rparr>)"
      using e w' by (simp add: new_merlin_def)
  qed
qed

text \<open>
  Claim C2. \<open>check_data\<close> runs over seven descriptors with seven different names. It
  returns whenever no descriptor's name is on two Merlin rows (on a fresh table, for one).
  A run that returns has changed the Merlin table only, and in the state it returns each
  descriptor has exactly one row of its name, whose \<open>completed\<close> is the answer of the
  existence check for the descriptor's model; where no row of that name existed before,
  the row is the created one: \<open>completed\<close> the existence check, \<open>ignored\<close> false,
  the descriptor's model and its three links.
\<close>

theorem check_data_one_entry_per_category:
  "length descriptors = 7 \<and> distinct (map (\<lambda>d. fst (snd d)) descriptors)
   \<and> ((\<forall>(nautobot_object, var_name, list_url, new_url, wizard_url) \<in> set descriptors.
          length (filter (\<lambda>r. merlin_name r = var_name) (merlins w)) \<le> 1) \<longrightarrow>
        (\<exists>w'. check_data w = Inr w'))
   \<and> (\<forall>w'. check_data w = Inr w' \<longrightarrow>
          w' = w\<lparr>merlins := merlins w'\<rparr> \<and>
          (\<forall>(nautobot_object, var_name, list_url, new_url, wizard_url) \<in> set descriptors.
                 \<exists>m. filter (\<lambda>r. merlin_name r = var_name) (merlins w') = [m]
                    \<and> completed m = inventory_exists w' nautobot_object
                    \<and> (filter (\<lambda>r. merlin_name r = var_name) (merlins w) = [] \<longrightarrow>
                          m = \<lparr>merlin_name = var_name,
                               completed = inventory_exists w' nautobot_object,
                               ignored = False,
                               nautobot_model = nautobot_object,
                               nautobot_add_link = new_url,
                               merlin_link = wizard_url,
                               nautobot_list_link = list_url\<rparr>)))"
proof (intro conjI allI impI)
  show "length descriptors = 7" by (rule descriptors_names(2))
  show "distinct (map (\<lambda>d. fst (snd d)) descriptors)" by (rule descriptors_names(1))
next
  assume "\<forall>(nautobot_object, var_name, list_url, new_url, wizard_url) \<in> set descriptors.
          length (filter (\<lambda>r. merlin_name r = var_name) (merlins w)) \<le> 1"
  then have "\<forall>d\<in>set descriptors.
      length (filter (\<lambda>m. merlin_name m = fst (snd d)) (merlins w)) \<le> 1"
    by (auto simp: split_def)
  then show "\<exists>w'. check_data w = Inr w'" by (rule check_data_returns)
next
  fix w' assume r: "check_data w = Inr w'"
  then show "w' = w\<lparr>merlins := merlins w'\<rparr>"
    by (auto simp: check_data_loop)
  from r show "\<forall>(nautobot_object, var_name, list_url, new_url, wizard_url) \<in> set descriptors.
                 \<exists>m. filter (\<lambda>r. merlin_name r = var_name) (merlins w') = [m]
                    \<and> completed m = inventory_exists w' nautobot_object
                    \<and> (filter (\<lambda>r. merlin_name r = var_name) (merlins w) = [] \<longrightarrow>
                          m = \<lparr>merlin_name = var_name,
                               completed = inventory_exists w' nautobot_object,
                               ignored = False,
                               nautobot_model = nautobot_object,
                               nautobot_add_link = new_url,
                               merlin_link = wizard_url,
                               nautobot_list_link = list_url\<rparr>)"
    by (rule check_data_rows)
qed

lemma example_world_merlins: "merlins example_world = []"
  by (simp add: example_world_def)

theorem check_data_one_entry_per_category_witness:
  "merlins example_world = []
   \<and> (\<exists>w'. check_data example_world = Inr w')
   \<and> check_data visited_world = Inr (visited_world\<lparr>merlins := visited_dashboard\<rparr>)
   \<and> (Location, ''Locations'', ''dcim:location_list'', ''dcim:location_add'', '''')
        \<in> set descriptors
   \<and> filter (\<lambda>r. merlin_name r = ''Locations'') (merlins visited_world) = []
   \<and> filter (\<lambda>r. merlin_name r = ''Locations'') visited_dashboard =
        [\<lparr>merlin_name = ''Locations'', completed = False, ignored = False,
          nautobot_model = Location, nautobot_add_link = ''dcim:location_add'',
          merlin_link = '''', nautobot_list_link = ''dcim:location_list''\<rparr>]
   \<and> (Manufacturer, ''Manufacturers'', ''dcim:manufacturer_list'', ''dcim:manufacturer_add'',
         ''plugins:welcome_wizard:manufacturer_import'') \<in> set descriptors
   \<and> (\<exists>m. filter (\<lambda>r. merlin_name r = ''Manufacturers'') visited_dashboard = [m]
          \<and> completed m = True)"
proof -
  have fresh: "\<forall>(nautobot_object, var_name, list_url, new_url, wizard_url) \<in> set descriptors.
          length (filter (\<lambda>r. merlin_name r = var_name) (merlins example_world)) \<le> 1"
    by (simp add: example_world_merlins split_def)
  have returns: "\<exists>w'. check_data example_world = Inr w'"
    by (rule check_data_one_entry_per_category [of example_world,
          THEN conjunct2, THEN conjunct2, THEN conjunct1, THEN mp, OF fresh])
  note t = check_data_one_entry_per_category [of visited_world,
      THEN conjunct2, THEN conjunct2, THEN conjunct2, THEN spec, THEN mp,
      OF visited_check_data, THEN conjunct2]
  have loc: "(Location, ''Locations'', ''dcim:location_list'', ''dcim:location_add'', '''')
        \<in> set descriptors"
    by (simp add: descriptors_def)
  have man: "(Manufacturer, ''Manufacturers'', ''dcim:manufacturer_list'',
         ''dcim:manufacturer_add'', ''plugins:welcome_wizard:manufacturer_import'')
        \<in> set descriptors"
    by (simp add: descriptors_def)
  have none: "filter (\<lambda>r. merlin_name r = ''Locations'') (merlins visited_world) = []"
    by (simp add: visited_world_fields stale_manufacturers_row_def)
  from t [THEN bspec, OF loc] none
  have created: "filter (\<lambda>r. merlin_name r = ''Locations'') visited_dashboard =
        [\<lparr>merlin_name = ''Locations'', completed = False, ignored = False,
          nautobot_model = Location, nautobot_add_link = ''dcim:location_add'',
          merlin_link = '''', nautobot_list_link = ''dcim:location_list''\<rparr>]"
    by (auto simp: visited_world_fields)
  from t [THEN bspec, OF man]
  have updated: "\<exists>m. filter (\<lambda>r. merlin_name r = ''Manufacturers'') visited_dashboard = [m]
          \<and> completed m = True"
    by (auto simp: visited_world_fields)
  show ?thesis
    by (intro conjI example_world_merlins returns visited_check_data loc none created man
        updated)
qed

text \<open>
  Claim C3. After a run of \<open>check_data\<close> that returned, a second run on the resulting
  state returns the same state: no row is added, removed or changed. Any later run, also
  after the inventory changed, returns a table of the same rows in which at most
  \<open>completed\<close> differs. The first run itself keeps every row it found, in place, with
  all fields but \<open>completed\<close>.
\<close>

theorem check_data_idempotent:
  assumes "check_data w = Inr w1"
  shows "check_data w1 = Inr w1
       \<and> (\<forall>ex2. \<exists>w2. check_data (w1\<lparr>inventory_exists := ex2\<rparr>) = Inr w2 \<and>
             map fields_but_completed (merlins w2) = map fields_but_completed (merlins w1))
       \<and> length (merlins w) \<le> length (merlins w1)
       \<and> map fields_but_completed (take (length (merlins w)) (merlins w1))
           = map fields_but_completed (merlins w)"
proof -
  from assms obtain ms where
    l: "check_loop (inventory_exists w) descriptors (merlins w) = Inr ms" and
    w1: "w1 = w\<lparr>merlins := ms\<rparr>"
    by (auto simp: check_data_loop)
  have one: "\<forall>d\<in>set descriptors. \<exists>x. filter (\<lambda>m. merlin_name m = fst (snd d)) ms = [x]
              \<and> completed x = inventory_exists w (fst d)"
  proof
    fix d assume "d \<in> set descriptors"
    from check_loop_category [OF l descriptors_names(1) this]
    show "\<exists>x. filter (\<lambda>m. merlin_name m = fst (snd d)) ms = [x]
              \<and> completed x = inventory_exists w (fst d)"
      by blast
  qed
  have again: "check_loop (inventory_exists w) descriptors ms = Inr ms"
    by (rule check_loop_fixed [OF one])
  have a: "check_data w1 = Inr w1"
    using again w1 by (simp add: check_data_def)
  have cnt: "\<forall>d\<in>set descriptors. length (filter (\<lambda>m. merlin_name m = fst (snd d)) ms) = 1"
    using one by fastforce
  have b: "\<forall>ex2. \<exists>w2. check_data (w1\<lparr>inventory_exists := ex2\<rparr>) = Inr w2 \<and>
             map fields_but_completed (merlins w2) = map fields_but_completed (merlins w1)"
  proof
    fix ex2
    from check_loop_settled [OF cnt, of ex2] obtain ms2 where
      "check_loop ex2 descriptors ms = Inr ms2"
      "map fields_but_completed ms2 = map fields_but_completed ms"
      by blast
    then show "\<exists>w2. check_data (w1\<lparr>inventory_exists := ex2\<rparr>) = Inr w2 \<and>
             map fields_but_completed (merlins w2) = map fields_but_completed (merlins w1)"
      using w1 by (simp add: check_data_def)
  qed
  from check_loop_fields [OF l] have
    c: "length (merlins w) \<le> length (merlins w1)" and
    d: "map fields_but_completed (take (length (merlins w)) (merlins w1))
           = map fields_but_completed (merlins w)"
    using w1 by simp_all
  show ?thesis by (intro conjI a b c d)
qed

theorem check_data_idempotent_witness:
  "check_data visited_world = Inr (visited_world\<lparr>merlins := visited_dashboard\<rparr>)
   \<and> check_data (visited_world\<lparr>merlins := visited_dashboard\<rparr>)
       = Inr (visited_world\<lparr>merlins := visited_dashboard\<rparr>)
   \<and> (\<exists>w2. check_data (visited_world\<lparr>merlins := visited_dashboard,
                                      inventory_exists := all_populated\<rparr>) = Inr w2
          \<and> map fields_but_completed (merlins w2) = map fields_but_completed visited_dashboard)
   \<and> map fields_but_completed (take 1 visited_dashboard)
       = [fields_but_completed stale_manufacturers_row]"
proof -
  note t = check_data_idempotent [OF visited_check_data]
  have a: "check_data (visited_world\<lparr>merlins := visited_dashboard\<rparr>)
       = Inr (visited_world\<lparr>merlins := visited_dashboard\<rparr>)"
    by (rule t [THEN conjunct1])
  from t [THEN conjunct2, THEN conjunct1, THEN spec, of all_populated]
  have b: "\<exists>w2. check_data (visited_world\<lparr>merlins := visited_dashboard,
                                      inventory_exists := all_populated\<rparr>) = Inr w2
          \<and> map fields_but_completed (merlins w2) = map fields_but_completed visited_dashboard"
    by (simp add: visited_world_fields)
  from t [THEN conjunct2, THEN conjunct2, THEN conjunct2]
  have c: "map fields_but_completed (take 1 visited_dashboard)
       = [fields_but_completed stale_manufacturers_row]"
    by (simp add: visited_world_fields)
  show ?thesis
    by (intro conjI visited_check_data a b c)
qed

end
